theory Spec2Isabelle
  imports
    Main
    "HOL-Library.Char_ord"
    "HOL-Library.List_Lexorder"
    "HOL-Library.Multiset"
begin

section \<open>Member synchronisation (cogs/member\_sync.py)\<close>

text \<open>
  The cog \<^verbatim>\<open>MemberSync\<close> reads the roles and members of a Discord guild, turns every
  human member into a dictionary of fields, projects the dictionaries into a grid and
  overwrites one sheet of a Google spreadsheet with that grid.

  Python strings are modelled as \<^typ>\<open>string\<close> holding the UTF-8 bytes of the text. The
  order that \<^verbatim>\<open>sorted\<close> uses on \<^verbatim>\<open>str\<close> is the lexicographic order of code points,
  and on UTF-8 bytes the lexicographic byte order is the same order, so \<^const>\<open>sort\<close> on
  \<^typ>\<open>string\<close> (orders from \<open>Char_ord\<close> and \<open>List_Lexorder\<close>) is \<^verbatim>\<open>sorted\<close>.
  Calls to \<^verbatim>\<open>print\<close> are left out: they change nothing that the functions return.
\<close>

subsection \<open>Values, roles, members, guilds\<close>

text \<open>The values that the dictionaries and the cells of the sheet hold.\<close>

datatype pyval = PStr string | PInt int | PBool bool

text \<open>Truth value of a Python object, as \<^verbatim>\<open>if x\<close> tests it.\<close>

fun truthy :: "pyval \<Rightarrow> bool" where
  "truthy (PStr s) = (s \<noteq> [])"
| "truthy (PInt i) = (i \<noteq> 0)"
| "truthy (PBool b) = b"

type_synonym dict = "string \<rightharpoonup> pyval"

record role =
  role_id :: nat
  role_name :: string

text \<open>\<^verbatim>\<open>discord.Status\<close> and the text \<^verbatim>\<open>str\<close> gives for each value.\<close>

datatype presence = Online | Offline | Idle | Dnd | Invisible

fun str_status :: "presence \<Rightarrow> string" where
  "str_status Online = ''online''"
| "str_status Offline = ''offline''"
| "str_status Idle = ''idle''"
| "str_status Dnd = ''dnd''"
| "str_status Invisible = ''invisible''"

text \<open>
  A \<^verbatim>\<open>datetime\<close>: the instant in microseconds since the epoch, and whether the object
  carries a time zone. Subtracting a naive from an aware \<^verbatim>\<open>datetime\<close> raises
  \<^verbatim>\<open>TypeError\<close>; \<^verbatim>\<open>timedelta.days\<close> is the floor of the difference in days.
\<close>

record datetime =
  instant :: int
  aware :: bool

definition usec_per_day :: int where
  "usec_per_day = 86400000000"

definition delta_days :: "datetime \<Rightarrow> datetime \<Rightarrow> int option" where
  "delta_days a b =
     (if aware a = aware b then Some ((instant a - instant b) div usec_per_day) else None)"

text \<open>
  A member as the code reads it. \<open>member_str\<close> is \<^verbatim>\<open>str(member)\<close>, \<open>top_role\<close> the
  library's \<^verbatim>\<open>member.top_role\<close>, \<open>avatar\<close> the URL of \<^verbatim>\<open>member.avatar\<close> when there is one.
\<close>

record member =
  member_str :: string
  display_name :: string
  member_id :: nat
  discriminator :: string
  nick :: "string option"
  roles :: "role list"
  top_role :: role
  is_bot :: bool
  created_at :: datetime
  joined_at :: "datetime option"
  status :: presence
  avatar :: "string option"

text \<open>
  The guild object of the client: its name, its roles, the members held in the client's
  cache, and whether that cache is complete (\<^verbatim>\<open>guild.chunked\<close>).
\<close>

record guild =
  guild_name :: string
  guild_roles :: "role list"
  members :: "member list"
  chunked :: bool

subsection \<open>Text helpers of the Python runtime\<close>

definition digit :: "nat \<Rightarrow> char" where
  "digit d = ''0123456789'' ! (d mod 10)"

fun str_nat :: "nat \<Rightarrow> string" where
  "str_nat n = (if n < 10 then [digit n] else str_nat (n div 10) @ [digit (n mod 10)])"

declare str_nat.simps [simp del]

definition str_int :: "int \<Rightarrow> string" where
  "str_int i = (if i < 0 then CHR ''-'' # str_nat (nat (- i)) else str_nat (nat i))"

text \<open>\<^verbatim>\<open>sep.join(xs)\<close>\<close>

fun join :: "string \<Rightarrow> string list \<Rightarrow> string" where
  "join sep [] = []"
| "join sep [x] = x"
| "join sep (x # y # ys) = x @ sep @ join sep (y # ys)"

subsection \<open>Role Catalog Builder: \<open>get_all_roles\<close>\<close>

definition everyone :: string where
  "everyone = ''@everyone''"

text \<open>
  \<^verbatim>\<open>
  roles = []
  for role in guild.roles:
      if role.name != "@everyone":
          roles.append(role.name)
  return sorted(roles)
  \<close>
\<close>

definition get_all_roles :: "guild \<Rightarrow> string list" where
  "get_all_roles g =
     sort (foldl (\<lambda>acc r. if role_name r \<noteq> everyone then acc @ [role_name r] else acc)
             [] (guild_roles g))"

subsection \<open>Member Record Extractor: \<open>get_member_data\<close>\<close>

text \<open>
  \<^verbatim>\<open>[role.name for role in member.roles if role.name != "@everyone"]\<close>
\<close>

definition member_roles :: "member \<Rightarrow> string list" where
  "member_roles m = map role_name (filter (\<lambda>r. role_name r \<noteq> everyone) (roles m))"

text \<open>
  \<^verbatim>\<open>member.top_role.name if member.top_role.name != "@everyone" else "Member"\<close>
\<close>

definition highest_role :: "member \<Rightarrow> string" where
  "highest_role m =
     (if role_name (top_role m) \<noteq> everyone then role_name (top_role m) else ''Member'')"

text \<open>
  The two ages. A \<^verbatim>\<open>TypeError\<close> of the subtraction is caught and gives 0; a missing
  join time gives 0 without subtracting.
\<close>

definition account_age_days :: "datetime \<Rightarrow> member \<Rightarrow> int" where
  "account_age_days now m =
     (case delta_days now (created_at m) of Some d \<Rightarrow> d | None \<Rightarrow> 0)"

definition server_age_days :: "datetime \<Rightarrow> member \<Rightarrow> int" where
  "server_age_days now m =
     (case joined_at m of
        None \<Rightarrow> 0
      | Some j \<Rightarrow> (case delta_days now j of Some d \<Rightarrow> d | None \<Rightarrow> 0))"

text \<open>
  \<^verbatim>\<open>
  role_columns = {}
  for role_name in all_roles:
      role_columns[f"role_{role_name}"] = "Yes" if role_name in member_roles else "No"
  \<close>
\<close>

definition role_key :: "string \<Rightarrow> string" where
  "role_key r = ''role_'' @ r"

definition yes_no :: "bool \<Rightarrow> pyval" where
  "yes_no b = PStr (if b then ''Yes'' else ''No'')"

definition role_columns :: "string list \<Rightarrow> string list \<Rightarrow> dict" where
  "role_columns all_roles mroles =
     foldl (\<lambda>d r. d(role_key r \<mapsto> yes_no (r \<in> set mroles))) Map.empty all_roles"

text \<open>
  The dictionary \<^verbatim>\<open>member_info\<close> of one member, after \<^verbatim>\<open>member_info.update(role_columns)\<close>.
  \<open>strftime\<close> stands for \<^verbatim>\<open>dt.strftime('%Y-%m-%d %H:%M:%S')\<close> of the Python library and
  \<open>now\<close> for the value \<^verbatim>\<open>datetime.now(timezone.utc)\<close> read for this member.
  \<^verbatim>\<open>member.nick or ''\<close> and \<^verbatim>\<open>... if member.avatar else 'No Avatar'\<close> test truth: an asset
  is false when its URL is empty.
\<close>

definition member_info :: "(datetime \<Rightarrow> string) \<Rightarrow> datetime \<Rightarrow> string list \<Rightarrow> member \<Rightarrow> dict" where
  "member_info strftime now all_roles m =
     [''username'' \<mapsto> PStr (member_str m),
      ''display_name'' \<mapsto> PStr (display_name m),
      ''user_id'' \<mapsto> PStr (str_nat (member_id m)),
      ''discriminator'' \<mapsto> PStr (discriminator m),
      ''nickname'' \<mapsto> PStr (case nick m of None \<Rightarrow> [] | Some n \<Rightarrow> n),
      ''roles'' \<mapsto> PStr (if member_roles m \<noteq> [] then join '', '' (member_roles m) else ''None''),
      ''highest_role'' \<mapsto> PStr (highest_role m),
      ''account_created'' \<mapsto> PStr (strftime (created_at m)),
      ''account_age_days'' \<mapsto> PInt (account_age_days now m),
      ''joined_server'' \<mapsto> PStr (case joined_at m of None \<Rightarrow> ''Unknown'' | Some j \<Rightarrow> strftime j),
      ''server_age_days'' \<mapsto> PInt (server_age_days now m),
      ''status'' \<mapsto> PStr (str_status (status m)),
      ''is_online'' \<mapsto> PBool (status m \<noteq> Offline),
      ''avatar_url'' \<mapsto> PStr (case avatar m of None \<Rightarrow> ''No Avatar''
                                | Some u \<Rightarrow> if u \<noteq> [] then u else ''No Avatar''),
      ''last_synced'' \<mapsto> PStr (strftime now)]
     ++ role_columns all_roles (member_roles m)"

text \<open>
  \<^verbatim>\<open>guild.chunk()\<close> is the library's full refresh of the member cache. Its outcome comes
  from outside: \<open>None\<close> when it raises (the exception is caught and ignored), \<open>Some ms\<close>
  when it loads the members \<open>ms\<close> into the guild object, which is then complete. The code
  ignores the value \<^verbatim>\<open>chunk()\<close> returns and reads \<^verbatim>\<open>guild.members\<close> afterwards.
\<close>

definition ensure_chunked :: "member list option \<Rightarrow> guild \<Rightarrow> guild" where
  "ensure_chunked fetched g =
     (if \<not> chunked g then
        (case fetched of
           Some ms \<Rightarrow> g\<lparr>members := ms, chunked := True\<rparr>
         | None \<Rightarrow> g)
      else g)"

text \<open>
  The loop over \<^verbatim>\<open>guild.members\<close>. Every member that is not a bot reads the clock once:
  \<open>clock k\<close> is the instant that the \<open>k\<close>-th call of \<^verbatim>\<open>datetime.now(timezone.utc)\<close> returns.
\<close>

definition now_aware :: "(nat \<Rightarrow> int) \<Rightarrow> nat \<Rightarrow> datetime" where
  "now_aware clock k = \<lparr>instant = clock k, aware = True\<rparr>"

fun collect :: "(datetime \<Rightarrow> string) \<Rightarrow> (nat \<Rightarrow> int) \<Rightarrow> string list \<Rightarrow> nat \<Rightarrow> member list
                \<Rightarrow> dict list \<Rightarrow> dict list" where
  "collect strftime clock all_roles k [] members_data = members_data"
| "collect strftime clock all_roles k (m # ms) members_data =
     (if is_bot m then collect strftime clock all_roles k ms members_data
      else collect strftime clock all_roles (Suc k) ms
             (members_data @ [member_info strftime (now_aware clock k) all_roles m]))"

text \<open>
  \<open>get_member_data\<close> returns \<^verbatim>\<open>(members_data, all_roles)\<close>; the third component is the
  guild object as the call leaves it.
\<close>

definition get_member_data :: "(datetime \<Rightarrow> string) \<Rightarrow> (nat \<Rightarrow> int) \<Rightarrow> member list option \<Rightarrow> guild
                                \<Rightarrow> dict list \<times> string list \<times> guild" where
  "get_member_data strftime clock fetched guild =
     (let g = ensure_chunked fetched guild;
          all_roles = get_all_roles g;
          members_data = collect strftime clock all_roles 0 (members g) []
      in (members_data, all_roles, g))"

subsection \<open>The spreadsheet service\<close>

text \<open>
  The Google Sheets service is outside the repository. It is modelled as the spec's
  external interface describes it: the spreadsheet is a list of sheets, each with a
  title, a numeric id and cells addressed by zero-based (row, column);
  \<^verbatim>\<open>spreadsheets().get\<close> returns the titles and ids, \<^verbatim>\<open>values().clear\<close> empties the cells
  of a range of columns, \<^verbatim>\<open>values().update\<close> with \<^verbatim>\<open>RAW\<close> input writes a grid of values
  verbatim from a start cell. A request that names a sheet by title acts on the first
  sheet of that title and fails when there is none. Every request is logged in \<open>calls\<close>.
  Transport failures are not modelled.
\<close>

datatype error =
    ServiceNotAvailable
  | SheetNotFound string
  | AttributeError
  | KeyError string
  | HttpError string

definition quote :: string where
  "quote = [CHR 0x27]"

fun str_error :: "error \<Rightarrow> string" where
  "str_error ServiceNotAvailable = ''Google Sheets service not available''"
| "str_error (SheetNotFound n) = ''Sheet '' @ quote @ n @ quote @ '' not found''"
| "str_error AttributeError =
     quote @ ''NoneType'' @ quote @ '' object has no attribute '' @ quote @ ''spreadsheets'' @ quote"
| "str_error (KeyError k) = quote @ k @ quote"
| "str_error (HttpError s) = s"

record sheet =
  title :: string
  sheetId :: nat
  cells :: "nat \<times> nat \<Rightarrow> pyval option"

datatype api_call =
    SpreadsheetsGet
  | ValuesClear string nat nat
  | ValuesUpdate string nat nat "pyval list list"

record backend =
  sheets :: "sheet list"
  calls :: "api_call list"

fun apply_first :: "string \<Rightarrow> (sheet \<Rightarrow> sheet) \<Rightarrow> sheet list \<Rightarrow> sheet list option" where
  "apply_first t f [] = None"
| "apply_first t f (s # ss) =
     (if title s = t then Some (f s # ss) else map_option ((#) s) (apply_first t f ss))"

definition clear_columns :: "nat \<Rightarrow> nat \<Rightarrow> sheet \<Rightarrow> sheet" where
  "clear_columns lo hi s =
     s\<lparr>cells := (\<lambda>(r, c). if lo \<le> c \<and> c \<le> hi then None else cells s (r, c))\<rparr>"

definition put_values :: "nat \<Rightarrow> nat \<Rightarrow> pyval list list \<Rightarrow> sheet \<Rightarrow> sheet" where
  "put_values r0 c0 vs s =
     s\<lparr>cells := (\<lambda>(r, c).
        if r0 \<le> r \<and> r - r0 < length vs \<and> c0 \<le> c \<and> c - c0 < length (vs ! (r - r0))
        then Some (vs ! (r - r0) ! (c - c0))
        else cells s (r, c))\<rparr>"

definition spreadsheets_get :: "backend \<Rightarrow> (string \<times> nat) list \<times> backend" where
  "spreadsheets_get b =
     (map (\<lambda>s. (title s, sheetId s)) (sheets b), b\<lparr>calls := calls b @ [SpreadsheetsGet]\<rparr>)"

text \<open>\<open>values_clear t lo hi\<close>: clear columns \<open>lo\<close> to \<open>hi\<close> (inclusive) of sheet \<open>t\<close>.\<close>

definition values_clear :: "string \<Rightarrow> nat \<Rightarrow> nat \<Rightarrow> backend \<Rightarrow> (error + unit) \<times> backend" where
  "values_clear t lo hi b =
     (let b' = b\<lparr>calls := calls b @ [ValuesClear t lo hi]\<rparr>
      in case apply_first t (clear_columns lo hi) (sheets b) of
           None \<Rightarrow> (Inl (HttpError ''Unable to parse range''), b')
         | Some ss \<Rightarrow> (Inr (), b'\<lparr>sheets := ss\<rparr>))"

text \<open>\<open>values_update t r0 c0 vs\<close>: write the grid \<open>vs\<close> into sheet \<open>t\<close> from cell (\<open>r0\<close>, \<open>c0\<close>).\<close>

definition values_update :: "string \<Rightarrow> nat \<Rightarrow> nat \<Rightarrow> pyval list list \<Rightarrow> backend
                             \<Rightarrow> (error + unit) \<times> backend" where
  "values_update t r0 c0 vs b =
     (let b' = b\<lparr>calls := calls b @ [ValuesUpdate t r0 c0 vs]\<rparr>
      in case apply_first t (put_values r0 c0 vs) (sheets b) of
           None \<Rightarrow> (Inl (HttpError ''Unable to parse range''), b')
         | Some ss \<Rightarrow> (Inr (), b'\<lparr>sheets := ss\<rparr>))"

subsection \<open>Sheet Writer: \<open>clear_sheet\<close> and \<open>write_member_data\<close>\<close>

text \<open>
  The cog: whether \<^verbatim>\<open>self.sheets_service\<close> was built (it is \<^verbatim>\<open>None\<close> otherwise) and the
  configured spreadsheet id.
\<close>

record cog =
  sheets_service :: bool
  google_sheet_id :: "string option"

text \<open>
  \<^verbatim>\<open>
  sheet_id = None
  for sheet in spreadsheet.get('sheets', []):
      if sheet['properties']['title'] == sheet_name:
          sheet_id = sheet['properties']['sheetId']
          break
  \<close>
\<close>

fun find_sheet_id :: "string \<Rightarrow> (string \<times> nat) list \<Rightarrow> nat option" where
  "find_sheet_id sheet_name [] = None"
| "find_sheet_id sheet_name ((t, i) # ps) =
     (if t = sheet_name then Some i else find_sheet_id sheet_name ps)"

text \<open>
  The range of the clear request is \<^verbatim>\<open>f"{sheet_name}!A:Z"\<close>: columns 0 to 25. An
  exception is printed and raised again, so it is the result.
\<close>

definition clear_sheet :: "cog \<Rightarrow> string \<Rightarrow> backend \<Rightarrow> (error + unit) \<times> backend" where
  "clear_sheet self sheet_name b =
     (if \<not> sheets_service self then (Inl AttributeError, b)
      else
        (let (spreadsheet, b1) = spreadsheets_get b
         in case find_sheet_id sheet_name spreadsheet of
              None \<Rightarrow> (Inl (SheetNotFound sheet_name), b1)
            | Some sheet_id \<Rightarrow> values_clear sheet_name 0 25 b1))"

definition base_headers :: "string list" where
  "base_headers =
     [''Username'', ''Display Name'', ''User ID'', ''Discriminator'', ''Nickname'',
      ''Roles'', ''Highest Role'', ''Account Created'', ''Account Age (Days)'',
      ''Joined Server'', ''Server Age (Days)'', ''Status'', ''Is Online'',
      ''Avatar URL'', ''Last Synced'']"

definition headers :: "string list \<Rightarrow> pyval list" where
  "headers all_roles = map PStr (base_headers @ map (\<lambda>role. ''Role: '' @ role) all_roles)"

text \<open>\<^verbatim>\<open>member[k]\<close> raises \<^verbatim>\<open>KeyError\<close> on a missing key.\<close>

definition getitem :: "dict \<Rightarrow> string \<Rightarrow> error + pyval" where
  "getitem d k = (case d k of None \<Rightarrow> Inl (KeyError k) | Some v \<Rightarrow> Inr v)"

text \<open>Evaluate from left to right; the first exception is the result.\<close>

fun in_order :: "(error + 'a) list \<Rightarrow> error + 'a list" where
  "in_order [] = Inr []"
| "in_order (Inl e # xs) = Inl e"
| "in_order (Inr v # xs) = (case in_order xs of Inl e \<Rightarrow> Inl e | Inr vs \<Rightarrow> Inr (v # vs))"

definition base_keys :: "string list" where
  "base_keys =
     [''username'', ''display_name'', ''user_id'', ''discriminator'', ''nickname'',
      ''roles'', ''highest_role'', ''account_created'', ''account_age_days'',
      ''joined_server'', ''server_age_days'', ''status'', ''is_online'',
      ''avatar_url'', ''last_synced'']"

text \<open>
  The fifteen base cells of a row, read from the dictionary in the order of the list
  display; the cell at index 12 is \<^verbatim>\<open>'Yes' if member['is_online'] else 'No'\<close>.
\<close>

definition base_row :: "dict \<Rightarrow> error + pyval list" where
  "base_row member =
     (case in_order (map (getitem member) base_keys) of
        Inl e \<Rightarrow> Inl e
      | Inr vs \<Rightarrow> Inr (vs[12 := yes_no (truthy (vs ! 12))]))"

text \<open>\<^verbatim>\<open>[member.get(f"role_{role}", "No") for role in all_roles]\<close>\<close>

definition role_data :: "dict \<Rightarrow> string list \<Rightarrow> pyval list" where
  "role_data member all_roles =
     map (\<lambda>role. case member (role_key role) of None \<Rightarrow> PStr ''No'' | Some v \<Rightarrow> v) all_roles"

definition row :: "dict \<Rightarrow> string list \<Rightarrow> error + pyval list" where
  "row member all_roles =
     (case base_row member of Inl e \<Rightarrow> Inl e | Inr bs \<Rightarrow> Inr (bs @ role_data member all_roles))"

text \<open>\<^verbatim>\<open>data_rows\<close>: the header row, then one row for each dictionary.\<close>

definition data_rows :: "dict list \<Rightarrow> string list \<Rightarrow> error + pyval list list" where
  "data_rows members_data all_roles =
     (case in_order (map (\<lambda>member. row member all_roles) members_data) of
        Inl e \<Rightarrow> Inl e
      | Inr rs \<Rightarrow> Inr (headers all_roles # rs))"

text \<open>
  \<open>write_member_data\<close>: build the grid, clear the sheet, write the grid at \<^verbatim>\<open>A1\<close>, return
  \<^verbatim>\<open>len(members_data)\<close>. An exception is printed and raised again.
\<close>

definition write_member_data :: "cog \<Rightarrow> dict list \<Rightarrow> string list \<Rightarrow> string \<Rightarrow> backend
                                  \<Rightarrow> (error + nat) \<times> backend" where
  "write_member_data self members_data all_roles sheet_name b =
     (if \<not> sheets_service self then (Inl ServiceNotAvailable, b)
      else
        (case data_rows members_data all_roles of
           Inl e \<Rightarrow> (Inl e, b)
         | Inr grid \<Rightarrow>
             (case clear_sheet self sheet_name b of
                (Inl e, b1) \<Rightarrow> (Inl e, b1)
              | (Inr u, b1) \<Rightarrow>
                  (case values_update sheet_name 0 0 grid b1 of
                     (Inl e, b2) \<Rightarrow> (Inl e, b2)
                   | (Inr u', b2) \<Rightarrow> (Inr (length members_data), b2)))))"

subsection \<open>Sync Orchestrator: \<open>sync_members\<close>\<close>

text \<open>
  What the command shows to its caller: messages sent, and edits of the status message
  (an edit gives new content and, on success, an embed).
\<close>

record embed =
  embed_title :: string
  embed_color :: nat
  embed_timestamp :: datetime
  embed_fields :: "(string \<times> string \<times> bool) list"
  embed_footer :: string

datatype action = Send string | Edit string "embed option"

definition roles_found :: "string list \<Rightarrow> (string \<times> string \<times> bool) list" where
  "roles_found all_roles =
     (if all_roles \<noteq> []
      then [(''Roles Found'',
             join '', '' (take 5 all_roles) @ (if length all_roles > 5 then ''...'' else []),
             False)]
      else [])"

definition success_embed :: "datetime \<Rightarrow> nat \<Rightarrow> string list \<Rightarrow> string \<Rightarrow> string \<Rightarrow> string \<Rightarrow> embed" where
  "success_embed now member_count all_roles sheet_name server author =
     \<lparr>embed_title = ''Member Sync Complete'',
      embed_color = 0x00ff00,
      embed_timestamp = now,
      embed_fields =
        [(''Members Synced'', str_nat member_count @ '' members'', True),
         (''Role Columns'', str_nat (length all_roles) @ '' roles'', True),
         (''Sheet'', sheet_name, True),
         (''Server'', server, True)] @ roles_found all_roles,
      embed_footer = ''Synced by '' @ author\<rparr>"

definition nothing_to_sync :: string where
  "nothing_to_sync = ''No human members found to sync (only bots in server?)''"

text \<open>
  \<open>sync_members\<close> returns the actions shown to the caller, the guild object and the
  spreadsheet service as the command leaves them. \<open>author\<close> is \<^verbatim>\<open>str(ctx.author)\<close>. The
  clock is read once more for the embed, after one reading per human member.
\<close>

definition sync_members :: "cog \<Rightarrow> (datetime \<Rightarrow> string) \<Rightarrow> (nat \<Rightarrow> int) \<Rightarrow> member list option
                             \<Rightarrow> string \<Rightarrow> guild \<Rightarrow> string \<Rightarrow> backend
                             \<Rightarrow> action list \<times> guild \<times> backend" where
  "sync_members self strftime clock fetched author guild sheet_name b =
     (if \<not> sheets_service self then ([Send ''Google Sheets service not available''], guild, b)
      else if (case google_sheet_id self of None \<Rightarrow> True | Some i \<Rightarrow> i = [])
      then ([Send ''Google Sheet ID not configured''], guild, b)
      else
        (let started = [Send ''Starting member synchronization...'',
                        Edit ''Collecting member data...'' None];
             (members_data, all_roles, g) = get_member_data strftime clock fetched guild
         in if members_data = [] then (started @ [Edit nothing_to_sync None], g, b)
            else
              (let writing = started @
                     [Edit (''Writing '' @ str_nat (length members_data) @ '' members to ''
                            @ sheet_name @ '' sheet...'') None]
               in case write_member_data self members_data all_roles sheet_name b of
                    (Inl e, b') \<Rightarrow>
                      (writing @ [Edit (''Sync failed: '' @ str_error e) None], g, b')
                  | (Inr member_count, b') \<Rightarrow>
                      (writing @
                         [Edit [] (Some (success_embed (now_aware clock (length members_data))
                                          member_count all_roles sheet_name (guild_name g) author))],
                       g, b'))))"

subsection \<open>Reading a sheet\<close>

text \<open>
  The sheet that a request by title acts on, and the cells that a grid written at the
  top-left corner occupies.
\<close>

definition sheet_named :: "string \<Rightarrow> backend \<Rightarrow> sheet option" where
  "sheet_named t b = find (\<lambda>s. title s = t) (sheets b)"

definition grid_cell :: "pyval list list \<Rightarrow> nat \<times> nat \<Rightarrow> pyval option" where
  "grid_cell grid =
     (\<lambda>(r, c). if r < length grid \<and> c < length (grid ! r) then Some (grid ! r ! c) else None)"

subsection \<open>Names for what the claims speak of\<close>

text \<open>The members that are not flagged as bots, in the order of \<^verbatim>\<open>guild.members\<close>.\<close>

definition humans :: "guild \<Rightarrow> member list" where
  "humans g = filter (\<lambda>m. \<not> is_bot m) (members g)"

text \<open>
  The fifteen base cells that \<open>write_member_data\<close> reads from the dictionary which
  \<open>get_member_data\<close> builds for a member (lemma \<open>base_row_member_info\<close> below).
\<close>

definition base_cells :: "(datetime \<Rightarrow> string) \<Rightarrow> datetime \<Rightarrow> member \<Rightarrow> pyval list" where
  "base_cells strftime now m =
     [PStr (member_str m), PStr (display_name m), PStr (str_nat (member_id m)),
      PStr (discriminator m), PStr (case nick m of None \<Rightarrow> [] | Some n \<Rightarrow> n),
      PStr (if member_roles m \<noteq> [] then join '', '' (member_roles m) else ''None''),
      PStr (highest_role m), PStr (strftime (created_at m)),
      PInt (account_age_days now m),
      PStr (case joined_at m of None \<Rightarrow> ''Unknown'' | Some j \<Rightarrow> strftime j),
      PInt (server_age_days now m), PStr (str_status (status m)),
      yes_no (status m \<noteq> Offline),
      PStr (case avatar m of None \<Rightarrow> ''No Avatar''
            | Some u \<Rightarrow> if u \<noteq> [] then u else ''No Avatar''),
      PStr (strftime now)]"

text \<open>The grid of a sync: what \<open>data_rows\<close> makes of the result of \<open>get_member_data\<close>.\<close>

definition sync_grid :: "(datetime \<Rightarrow> string) \<Rightarrow> (nat \<Rightarrow> int) \<Rightarrow> member list option \<Rightarrow> guild
                          \<Rightarrow> error + pyval list list" where
  "sync_grid strftime clock fetched g =
     (case get_member_data strftime clock fetched g of
        (members_data, all_roles, g') \<Rightarrow> data_rows members_data all_roles)"

text \<open>
  \<open>only_cells_of t ss ss'\<close>: the sheets \<open>ss'\<close> are the sheets \<open>ss\<close>, with the same titles and
  ids in the same order, and every sheet whose title is not \<open>t\<close> is unchanged.
\<close>

definition only_cells_of :: "string \<Rightarrow> sheet list \<Rightarrow> sheet list \<Rightarrow> bool" where
  "only_cells_of t ss ss' =
     list_all2 (\<lambda>s s'. title s' = title s \<and> sheetId s' = sheetId s \<and> (title s = t \<or> s' = s)) ss ss'"

text \<open>
  An action shows the summary of a finished sync when it is an edit that carries the
  embed: the embed is the only place where the command reports counts.
\<close>

fun shows_summary :: "action \<Rightarrow> bool" where
  "shows_summary (Send s) = False"
| "shows_summary (Edit s e) = (e \<noteq> None)"

subsection \<open>Example data\<close>

definition ex_everyone :: role where
  "ex_everyone = \<lparr>role_id = 1, role_name = ''@everyone''\<rparr>"

definition ex_admin :: role where
  "ex_admin = \<lparr>role_id = 2, role_name = ''Admin''\<rparr>"

definition ex_member :: role where
  "ex_member = \<lparr>role_id = 3, role_name = ''Member''\<rparr>"

definition ex_mod :: role where
  "ex_mod = \<lparr>role_id = 4, role_name = ''Mod''\<rparr>"

definition ex_mod2 :: role where
  "ex_mod2 = \<lparr>role_id = 5, role_name = ''Mod''\<rparr>"

definition ex_plain :: role where
  "ex_plain = \<lparr>role_id = 6, role_name = ''everyone''\<rparr>"

definition ex_created :: datetime where
  "ex_created = \<lparr>instant = 0, aware = True\<rparr>"

definition ex_joined :: datetime where
  "ex_joined = \<lparr>instant = 7 * usec_per_day + 1, aware = True\<rparr>"

definition ex_strftime :: "datetime \<Rightarrow> string" where
  "ex_strftime t = str_int (instant t div 1000000)"

definition ex_clock :: "nat \<Rightarrow> int" where
  "ex_clock k = 10 * usec_per_day + int k"

definition ex_alice :: member where
  "ex_alice =
     \<lparr>member_str = ''alice'', display_name = ''Alice'', member_id = 42, discriminator = ''0'',
      nick = None, roles = [ex_everyone, ex_member], top_role = ex_member, is_bot = False,
      created_at = ex_created, joined_at = None, status = Online, avatar = None\<rparr>"

definition ex_bob :: member where
  "ex_bob =
     \<lparr>member_str = ''bob'', display_name = ''Bob'', member_id = 43, discriminator = ''0'',
      nick = Some ''bobby'', roles = [ex_everyone], top_role = ex_everyone, is_bot = False,
      created_at = ex_created, joined_at = Some ex_joined, status = Offline, avatar = None\<rparr>"

definition ex_carol :: member where
  "ex_carol = ex_bob\<lparr>member_str := ''carol'', roles := [ex_everyone, ex_plain], top_role := ex_plain\<rparr>"

definition ex_robot :: member where
  "ex_robot = ex_bob\<lparr>member_str := ''robot'', member_id := 44, is_bot := True\<rparr>"

definition ex_guild :: guild where
  "ex_guild =
     \<lparr>guild_name = ''Beans'', guild_roles = [ex_everyone, ex_member, ex_admin],
      members = [ex_alice, ex_robot, ex_bob], chunked = True\<rparr>"

definition ex_shuffled :: guild where
  "ex_shuffled = ex_guild\<lparr>guild_roles := [ex_admin, ex_everyone, ex_member]\<rparr>"

definition ex_bare :: guild where
  "ex_bare = ex_guild\<lparr>guild_roles := [ex_everyone]\<rparr>"

definition ex_twins :: guild where
  "ex_twins = ex_guild\<lparr>guild_roles := [ex_everyone, ex_mod, ex_mod2]\<rparr>"

definition ex_bots :: guild where
  "ex_bots = ex_guild\<lparr>members := [ex_robot, ex_robot]\<rparr>"

definition ex_unloaded :: guild where
  "ex_unloaded = ex_guild\<lparr>members := [], chunked := False\<rparr>"

definition ex_cog :: cog where
  "ex_cog = \<lparr>sheets_service = True, google_sheet_id = Some ''sheet-1''\<rparr>"

definition ex_unready :: cog where
  "ex_unready = ex_cog\<lparr>sheets_service := False\<rparr>"

definition ex_backend :: backend where
  "ex_backend =
     \<lparr>sheets = [\<lparr>title = ''Benji'', sheetId = 0, cells = (\<lambda>p. None)\<rparr>,
                \<lparr>title = ''Notes'', sheetId = 7,
                 cells = (\<lambda>p. if p = (0, 0) then Some (PStr ''keep'') else None)\<rparr>],
      calls = []\<rparr>"

definition ex_carols :: guild where
  "ex_carols = ex_guild\<lparr>guild_roles := [ex_everyone, ex_plain], members := [ex_carol]\<rparr>"

definition ex_wide :: "string list" where
  "ex_wide = [''A'', ''B'', ''C'', ''D'', ''E'', ''F'', ''G'', ''H'', ''I'', ''J'', ''K'', ''L'']"

definition ex_many :: guild where
  "ex_many =
     ex_guild\<lparr>guild_roles :=
       ex_everyone # map (\<lambda>(i, n). \<lparr>role_id = i, role_name = n\<rparr>) (enumerate 10 (rev ex_wide))\<rparr>"

text \<open>
  Two syncs into the empty sheet \<^verbatim>\<open>Benji\<close>: the first while the guild has twelve custom
  roles, the second after they are gone. And one sync into a sheet that holds a value
  in column \<^verbatim>\<open>AE\<close>.
\<close>

definition ex_first_write :: "(error + nat) \<times> backend" where
  "ex_first_write =
     write_member_data ex_cog (fst (get_member_data ex_strftime ex_clock None ex_many))
       (get_all_roles ex_many) ''Benji'' ex_backend"

definition ex_second_write :: "(error + nat) \<times> backend" where
  "ex_second_write =
     write_member_data ex_cog (fst (get_member_data ex_strftime ex_clock None ex_bare))
       (get_all_roles ex_bare) ''Benji'' (snd ex_first_write)"

definition ex_stale :: backend where
  "ex_stale =
     \<lparr>sheets = [\<lparr>title = ''Benji'', sheetId = 0,
                 cells = (\<lambda>p. if p = (0, 30) then Some (PStr ''stale'') else None)\<rparr>],
      calls = []\<rparr>"

definition ex_third_write :: "(error + nat) \<times> backend" where
  "ex_third_write =
     write_member_data ex_cog (fst (get_member_data ex_strftime ex_clock None ex_bare))
       (get_all_roles ex_bare) ''Benji'' ex_stale"

section \<open>Auxiliary facts\<close>

subsection \<open>The loops as list functions\<close>

lemma names_loop:
  "foldl (\<lambda>acc r. if role_name r \<noteq> everyone then acc @ [role_name r] else acc) acc rs
     = acc @ map role_name (filter (\<lambda>r. role_name r \<noteq> everyone) rs)"
  by (induction rs arbitrary: acc) simp_all

lemma get_all_roles_sort:
  "get_all_roles g = sort (map role_name (filter (\<lambda>r. role_name r \<noteq> everyone) (guild_roles g)))"
  by (simp add: get_all_roles_def names_loop)

lemma set_get_all_roles:
  "set (get_all_roles g) = role_name ` set (guild_roles g) - {everyone}"
  by (auto simp: get_all_roles_sort)

lemma collect_eq:
  "collect strftime clock all_roles k ms acc
     = acc @ map (\<lambda>(i, m). member_info strftime (now_aware clock i) all_roles m)
               (enumerate k (filter (\<lambda>m. \<not> is_bot m) ms))"
  by (induction ms arbitrary: k acc) simp_all

lemma role_columns_loop:
  "foldl (\<lambda>d r. d(role_key r \<mapsto> yes_no (r \<in> set mroles))) d rs k
     = (if k \<in> role_key ` set rs then Some (yes_no (drop 5 k \<in> set mroles)) else d k)"
proof (induction rs arbitrary: d)
  case Nil
  show ?case by simp
next
  case (Cons r rs)
  have "drop 5 (role_key r) = r" by (simp add: role_key_def)
  with Cons show ?case by auto
qed

lemma role_columns_apply:
  "role_columns all_roles mroles k
     = (if k \<in> role_key ` set all_roles then Some (yes_no (drop 5 k \<in> set mroles)) else None)"
  by (simp add: role_columns_def role_columns_loop)

lemma role_columns_key:
  "role_columns all_roles mroles (role_key r)
     = (if r \<in> set all_roles then Some (yes_no (r \<in> set mroles)) else None)"
  by (auto simp: role_columns_apply role_key_def)

lemma base_key_not_role:
  "k \<in> set base_keys \<Longrightarrow> role_columns all_roles mroles k = None"
  by (auto simp: role_columns_apply role_key_def base_keys_def)



lemma getitem_add: "rc k = None \<Longrightarrow> getitem (d ++ rc) k = getitem d k"
  by (simp add: getitem_def map_add_def)

lemma map_getitem_add:
  "map (getitem (d ++ role_columns all_roles mroles)) base_keys = map (getitem d) base_keys"
  by (rule map_cong) (simp_all add: getitem_add base_key_not_role)

lemma base_literal:
  "in_order (map (getitem
      [''username'' \<mapsto> v1, ''display_name'' \<mapsto> v2, ''user_id'' \<mapsto> v3,
       ''discriminator'' \<mapsto> v4, ''nickname'' \<mapsto> v5, ''roles'' \<mapsto> v6,
       ''highest_role'' \<mapsto> v7, ''account_created'' \<mapsto> v8, ''account_age_days'' \<mapsto> v9,
       ''joined_server'' \<mapsto> v10, ''server_age_days'' \<mapsto> v11, ''status'' \<mapsto> v12,
       ''is_online'' \<mapsto> v13, ''avatar_url'' \<mapsto> v14, ''last_synced'' \<mapsto> v15]) base_keys)
   = Inr [v1, v2, v3, v4, v5, v6, v7, v8, v9, v10, v11, v12, v13, v14, v15]"
  by (simp add: base_keys_def getitem_def)

lemma update_12:
  "[v1, v2, v3, v4, v5, v6, v7, v8, v9, v10, v11, v12, v13, v14, v15][12 := w]
     = [v1, v2, v3, v4, v5, v6, v7, v8, v9, v10, v11, v12, w, v14, v15]"
  "[v1, v2, v3, v4, v5, v6, v7, v8, v9, v10, v11, v12, v13, v14, v15] ! 12 = v13"
  by (simp_all add: eval_nat_numeral)


lemma base_row_member_info:
  "base_row (member_info strftime now all_roles m) =
     Inr [PStr (member_str m), PStr (display_name m), PStr (str_nat (member_id m)),
          PStr (discriminator m), PStr (case nick m of None \<Rightarrow> [] | Some n \<Rightarrow> n),
          PStr (if member_roles m \<noteq> [] then join '', '' (member_roles m) else ''None''),
          PStr (highest_role m), PStr (strftime (created_at m)),
          PInt (account_age_days now m),
          PStr (case joined_at m of None \<Rightarrow> ''Unknown'' | Some j \<Rightarrow> strftime j),
          PInt (server_age_days now m), PStr (str_status (status m)),
          yes_no (status m \<noteq> Offline),
          PStr (case avatar m of None \<Rightarrow> ''No Avatar''
                | Some u \<Rightarrow> if u \<noteq> [] then u else ''No Avatar''),
          PStr (strftime now)]"
  unfolding member_info_def base_row_def
  by (simp only: map_getitem_add base_literal sum.case update_12 truthy.simps)

lemma length_base_row:
  "base_row (member_info strftime now all_roles m) = Inr bs \<Longrightarrow> length bs = 15"
  by (auto simp: base_row_member_info)

lemma member_info_role_key:
  "member_info strftime now all_roles m (role_key r)
     = (if r \<in> set all_roles then Some (yes_no (r \<in> set (member_roles m))) else None)"
proof -
  have "[''username'' \<mapsto> v1, ''display_name'' \<mapsto> v2, ''user_id'' \<mapsto> v3,
       ''discriminator'' \<mapsto> v4, ''nickname'' \<mapsto> v5, ''roles'' \<mapsto> v6,
       ''highest_role'' \<mapsto> v7, ''account_created'' \<mapsto> v8, ''account_age_days'' \<mapsto> v9,
       ''joined_server'' \<mapsto> v10, ''server_age_days'' \<mapsto> v11, ''status'' \<mapsto> v12,
       ''is_online'' \<mapsto> v13, ''avatar_url'' \<mapsto> v14, ''last_synced'' \<mapsto> v15] (role_key r) = None"
    for v1 v2 v3 v4 v5 v6 v7 v8 v9 v10 v11 v12 v13 v14 v15 :: pyval
    by (simp add: role_key_def)
  then show ?thesis
    unfolding member_info_def by (simp only: map_add_def role_columns_key split: option.split if_split) simp
qed

lemma role_data_member_info:
  "role_data (member_info strftime now all_roles m) cat
     = map (\<lambda>r. yes_no (r \<in> set all_roles \<and> r \<in> set (member_roles m))) cat"
  by (simp add: role_data_def member_info_role_key yes_no_def)


lemma sorted_unique:
  "mset xs = mset ys \<Longrightarrow> sort xs = sort (ys :: 'a :: linorder list)"
  by (metis mset_sort sorted_sort properties_for_sort)

lemma get_all_roles_distinct:
  "distinct (map role_name (guild_roles g)) \<Longrightarrow> distinct (get_all_roles g)"
  by (simp add: get_all_roles_sort distinct_map_filter)


subsection \<open>The spreadsheet requests\<close>

lemma in_order_Inr: "in_order (map (\<lambda>x. Inr (f x)) xs) = Inr (map f xs)"
  by (induction xs) simp_all

lemma apply_first_None: "(apply_first t f ss = None) = (find (\<lambda>s. title s = t) ss = None)"
  by (induction ss) simp_all

lemma find_sheet_id_None:
  "(find_sheet_id t (map (\<lambda>s. (title s, sheetId s)) ss) = None) = (find (\<lambda>s. title s = t) ss = None)"
  by (induction ss) simp_all

lemma apply_first_find:
  assumes "\<And>s. title (f s) = title s"
    and "apply_first t f ss = Some ss'"
  shows "find (\<lambda>s. title s = t') ss'
           = (if t' = t then map_option f (find (\<lambda>s. title s = t) ss)
              else find (\<lambda>s. title s = t') ss)"
  using assms(2)
proof (induction ss arbitrary: ss')
  case Nil
  then show ?case by simp
next
  case (Cons s ss)
  show ?case
  proof (cases "title s = t")
    case True
    with Cons.prems have "ss' = f s # ss" by simp
    with True show ?thesis by (simp add: assms(1))
  next
    case False
    with Cons.prems obtain rest where r: "apply_first t f ss = Some rest" "ss' = s # rest"
      by auto
    from Cons.IH [OF r(1)] r(2) False show ?thesis by (cases "t' = t") simp_all
  qed
qed

lemma apply_first_shape:
  assumes "\<And>s. title (f s) = title s" "\<And>s. sheetId (f s) = sheetId s"
    and "apply_first t f ss = Some ss'"
  shows "map title ss' = map title ss \<and> map sheetId ss' = map sheetId ss
         \<and> (\<forall>i < length ss. title (ss ! i) \<noteq> t \<longrightarrow> ss' ! i = ss ! i)"
  using assms(3)
proof (induction ss arbitrary: ss')
  case Nil
  then show ?case by simp
next
  case (Cons s ss)
  show ?case
  proof (cases "title s = t")
    case True
    with Cons.prems have "ss' = f s # ss" by simp
    with True show ?thesis by (auto simp: assms(1,2) nth_Cons split: nat.splits)
  next
    case False
    with Cons.prems obtain rest where r: "apply_first t f ss = Some rest" "ss' = s # rest"
      by auto
    from Cons.IH [OF r(1)] r(2) False show ?thesis by (auto simp: nth_Cons split: nat.splits)
  qed
qed


lemma title_clear [simp]: "title (clear_columns lo hi s) = title s"
  by (simp add: clear_columns_def)

lemma title_put [simp]: "title (put_values r0 c0 vs s) = title s"
  by (simp add: put_values_def)

lemma sheetId_clear [simp]: "sheetId (clear_columns lo hi s) = sheetId s"
  by (simp add: clear_columns_def)

lemma sheetId_put [simp]: "sheetId (put_values r0 c0 vs s) = sheetId s"
  by (simp add: put_values_def)

lemma clear_sheet_missing:
  assumes "sheets_service self" and "sheet_named t b = None"
  shows "clear_sheet self t b = (Inl (SheetNotFound t), b\<lparr>calls := calls b @ [SpreadsheetsGet]\<rparr>)"
proof -
  from assms(2) have "find_sheet_id t (map (\<lambda>s. (title s, sheetId s)) (sheets b)) = None"
    by (simp add: sheet_named_def find_sheet_id_None)
  with assms(1) show ?thesis
    by (simp add: clear_sheet_def spreadsheets_get_def)
qed

lemma clear_sheet_found:
  assumes "sheets_service self" and "sheet_named t b = Some s"
  shows "\<exists>ss. apply_first t (clear_columns 0 25) (sheets b) = Some ss \<and>
           clear_sheet self t b
             = (Inr (), b\<lparr>calls := calls b @ [SpreadsheetsGet, ValuesClear t 0 25], sheets := ss\<rparr>)"
proof -
  from assms(2) have f: "find (\<lambda>s. title s = t) (sheets b) \<noteq> None"
    by (simp add: sheet_named_def)
  then obtain ss where ss: "apply_first t (clear_columns 0 25) (sheets b) = Some ss"
    using apply_first_None [of t "clear_columns 0 25" "sheets b"] by auto
  from f obtain i where i: "find_sheet_id t (map (\<lambda>s. (title s, sheetId s)) (sheets b)) = Some i"
    using find_sheet_id_None [of t "sheets b"] by auto
  show ?thesis
    using assms(1) ss i
    by (simp add: clear_sheet_def spreadsheets_get_def values_clear_def)
qed


lemma sheet_named_calls [simp]: "sheet_named t (b\<lparr>calls := cs\<rparr>) = sheet_named t b"
  by (simp add: sheet_named_def)

text \<open>A successful write: what it returns, what it logs, what it leaves in the sheets.\<close>

lemma write_member_data_found:
  assumes "sheets_service self" and "data_rows members_data all_roles = Inr grid"
    and "sheet_named t b = Some s"
  shows "\<exists>b'. write_member_data self members_data all_roles t b = (Inr (length members_data), b')
           \<and> calls b' = calls b @ [SpreadsheetsGet, ValuesClear t 0 25, ValuesUpdate t 0 0 grid]
           \<and> sheet_named t b' = Some (put_values 0 0 grid (clear_columns 0 25 s))
           \<and> (\<forall>t'. t' \<noteq> t \<longrightarrow> sheet_named t' b' = sheet_named t' b)
           \<and> map title (sheets b') = map title (sheets b)
           \<and> map sheetId (sheets b') = map sheetId (sheets b)
           \<and> (\<forall>i < length (sheets b). title (sheets b ! i) \<noteq> t \<longrightarrow> sheets b' ! i = sheets b ! i)"
proof -
  from clear_sheet_found [OF assms(1,3)] obtain ss1 where
    c1: "apply_first t (clear_columns 0 25) (sheets b) = Some ss1" and
    c2: "clear_sheet self t b
           = (Inr (), b\<lparr>calls := calls b @ [SpreadsheetsGet, ValuesClear t 0 25], sheets := ss1\<rparr>)"
    by blast
  have n1: "find (\<lambda>s. title s = t') ss1
              = (if t' = t then map_option (clear_columns 0 25) (find (\<lambda>s. title s = t) (sheets b))
                 else find (\<lambda>s. title s = t') (sheets b))" for t'
    by (rule apply_first_find [OF _ c1]) simp
  have s1: "map title ss1 = map title (sheets b) \<and> map sheetId ss1 = map sheetId (sheets b)
         \<and> (\<forall>i < length (sheets b). title (sheets b ! i) \<noteq> t \<longrightarrow> ss1 ! i = sheets b ! i)"
    by (rule apply_first_shape [OF _ _ c1]) simp_all
  from n1 [of t] assms(3) have f1: "find (\<lambda>s. title s = t) ss1 = Some (clear_columns 0 25 s)"
    by (simp add: sheet_named_def)
  then obtain ss2 where c3: "apply_first t (put_values 0 0 grid) ss1 = Some ss2"
    using apply_first_None [of t "put_values 0 0 grid" ss1] by auto
  have n2: "find (\<lambda>s. title s = t') ss2
              = (if t' = t then map_option (put_values 0 0 grid) (find (\<lambda>s. title s = t) ss1)
                 else find (\<lambda>s. title s = t') ss1)" for t'
    by (rule apply_first_find [OF _ c3]) simp
  have s2: "map title ss2 = map title ss1 \<and> map sheetId ss2 = map sheetId ss1
         \<and> (\<forall>i < length ss1. title (ss1 ! i) \<noteq> t \<longrightarrow> ss2 ! i = ss1 ! i)"
    by (rule apply_first_shape [OF _ _ c3]) simp_all
  let ?b' = "b\<lparr>calls := calls b @ [SpreadsheetsGet, ValuesClear t 0 25, ValuesUpdate t 0 0 grid],
               sheets := ss2\<rparr>"
  have w: "write_member_data self members_data all_roles t b = (Inr (length members_data), ?b')"
    using assms(1,2) c2 c3 by (simp add: write_member_data_def values_update_def)
  have len: "length ss1 = length (sheets b)"
    using s1 by (metis length_map)
  have t1: "\<And>i. i < length (sheets b) \<Longrightarrow> title (ss1 ! i) = title (sheets b ! i)"
    using s1 len by (metis nth_map)
  have frame: "\<forall>i < length (sheets b). title (sheets b ! i) \<noteq> t \<longrightarrow> ss2 ! i = sheets b ! i"
    using s1 s2 len t1 by auto
  have f2: "find (\<lambda>s. title s = t) ss2 = Some (put_values 0 0 grid (clear_columns 0 25 s))"
    using n2 [of t] f1 by simp
  have others: "t' \<noteq> t \<Longrightarrow> find (\<lambda>s. title s = t') ss2 = find (\<lambda>s. title s = t') (sheets b)" for t'
    using n1 [of t'] n2 [of t'] by simp
  have shape: "map title ss2 = map title (sheets b)" "map sheetId ss2 = map sheetId (sheets b)"
    using s1 s2 by simp_all
  show ?thesis
    apply (rule exI [of _ ?b'])
    using w f2 others shape frame by (simp add: sheet_named_def)
qed



subsection \<open>The extractor and the projector on their own output\<close>

lemma guild_roles_ensure_chunked [simp]:
  "guild_roles (ensure_chunked fetched g) = guild_roles g"
  by (simp add: ensure_chunked_def split: option.split)

lemma get_all_roles_ensure_chunked [simp]:
  "get_all_roles (ensure_chunked fetched g) = get_all_roles g"
  by (simp add: get_all_roles_def)

lemma get_member_data_eq:
  "get_member_data strftime clock fetched g =
     (map (\<lambda>(k, m). member_info strftime (now_aware clock k) (get_all_roles g) m)
        (enumerate 0 (humans (ensure_chunked fetched g))),
      get_all_roles g, ensure_chunked fetched g)"
  by (simp add: get_member_data_def Let_def collect_eq humans_def)

lemma literal_fields:
  fixes v1 v2 v3 v4 v5 v6 v7 v8 v9 v10 v11 v12 v13 v14 v15 :: pyval
  defines "d \<equiv> [''username'' \<mapsto> v1, ''display_name'' \<mapsto> v2, ''user_id'' \<mapsto> v3,
       ''discriminator'' \<mapsto> v4, ''nickname'' \<mapsto> v5, ''roles'' \<mapsto> v6,
       ''highest_role'' \<mapsto> v7, ''account_created'' \<mapsto> v8, ''account_age_days'' \<mapsto> v9,
       ''joined_server'' \<mapsto> v10, ''server_age_days'' \<mapsto> v11, ''status'' \<mapsto> v12,
       ''is_online'' \<mapsto> v13, ''avatar_url'' \<mapsto> v14, ''last_synced'' \<mapsto> v15]"
  shows "d ''user_id'' = Some v3" "d ''highest_role'' = Some v7"
    "d ''joined_server'' = Some v10" "d ''server_age_days'' = Some v11"
  by (simp_all add: d_def)

lemma member_info_fields:
  "member_info strftime now all_roles m ''user_id'' = Some (PStr (str_nat (member_id m)))"
  "member_info strftime now all_roles m ''highest_role'' = Some (PStr (highest_role m))"
  "member_info strftime now all_roles m ''joined_server''
     = Some (PStr (case joined_at m of None \<Rightarrow> ''Unknown'' | Some j \<Rightarrow> strftime j))"
  "member_info strftime now all_roles m ''server_age_days'' = Some (PInt (server_age_days now m))"
proof -
  have n: "role_columns all_roles (member_roles m) k = None" if "k \<in> set base_keys" for k
    using that by (rule base_key_not_role)
  have k: "''user_id'' \<in> set base_keys" "''highest_role'' \<in> set base_keys"
    "''joined_server'' \<in> set base_keys" "''server_age_days'' \<in> set base_keys"
    by (simp_all add: base_keys_def)
  show "member_info strftime now all_roles m ''user_id'' = Some (PStr (str_nat (member_id m)))"
    unfolding member_info_def map_add_def by (simp only: n [OF k(1)] option.case literal_fields)
  show "member_info strftime now all_roles m ''highest_role'' = Some (PStr (highest_role m))"
    unfolding member_info_def map_add_def by (simp only: n [OF k(2)] option.case literal_fields)
  show "member_info strftime now all_roles m ''joined_server''
     = Some (PStr (case joined_at m of None \<Rightarrow> ''Unknown'' | Some j \<Rightarrow> strftime j))"
    unfolding member_info_def map_add_def by (simp only: n [OF k(3)] option.case literal_fields)
  show "member_info strftime now all_roles m ''server_age_days'' = Some (PInt (server_age_days now m))"
    unfolding member_info_def map_add_def by (simp only: n [OF k(4)] option.case literal_fields)
qed

lemma map_enumerate_snd: "map (\<lambda>(k, m). f m) (enumerate n xs) = map f xs"
  by (induction xs arbitrary: n) simp_all

lemma member_roles_in_catalog:
  "r \<in> set (get_all_roles g) \<Longrightarrow> (r \<in> set (member_roles m)) = (r \<in> role_name ` set (roles m))"
  by (auto simp: set_get_all_roles member_roles_def)

lemma row_member_info:
  "\<exists>bs. length bs = 15 \<and>
     row (member_info strftime now (get_all_roles g) m) (get_all_roles g)
       = Inr (bs @ map (\<lambda>r. yes_no (r \<in> role_name ` set (roles m))) (get_all_roles g))"
proof -
  obtain bs where bs: "base_row (member_info strftime now (get_all_roles g) m) = Inr bs"
    by (simp add: base_row_member_info)
  then have l: "length bs = 15" by (rule length_base_row)
  have "role_data (member_info strftime now (get_all_roles g) m) (get_all_roles g)
      = map (\<lambda>r. yes_no (r \<in> role_name ` set (roles m))) (get_all_roles g)"
    unfolding role_data_member_info
    by (rule map_cong) (simp_all add: member_roles_in_catalog)
  with bs l show ?thesis by (simp add: row_def)
qed


lemma length_base_cells [simp]: "length (base_cells strftime now m) = 15"
  by (simp add: base_cells_def)

lemma row_member_info_cells:
  "row (member_info strftime now (get_all_roles g) m) (get_all_roles g)
     = Inr (base_cells strftime now m
            @ map (\<lambda>r. yes_no (r \<in> role_name ` set (roles m))) (get_all_roles g))"
proof -
  have "role_data (member_info strftime now (get_all_roles g) m) (get_all_roles g)
      = map (\<lambda>r. yes_no (r \<in> role_name ` set (roles m))) (get_all_roles g)"
    unfolding role_data_member_info
    by (rule map_cong) (simp_all add: member_roles_in_catalog)
  then show ?thesis
    by (simp add: row_def base_row_member_info base_cells_def)
qed

lemma data_rows_member_info:
  "data_rows (map (\<lambda>(k, m). member_info strftime (now_aware clock k) (get_all_roles g) m) kms)
       (get_all_roles g)
     = Inr (headers (get_all_roles g) #
            map (\<lambda>(k, m). base_cells strftime (now_aware clock k) m
                   @ map (\<lambda>r. yes_no (r \<in> role_name ` set (roles m))) (get_all_roles g)) kms)"
proof -
  have "in_order (map (\<lambda>member. row member (get_all_roles g))
          (map (\<lambda>(k, m). member_info strftime (now_aware clock k) (get_all_roles g) m) kms))
      = Inr (map (\<lambda>(k, m). base_cells strftime (now_aware clock k) m
                   @ map (\<lambda>r. yes_no (r \<in> role_name ` set (roles m))) (get_all_roles g)) kms)"
    by (induction kms) (simp_all add: row_member_info_cells case_prod_beta)
  then show ?thesis
    by (simp add: data_rows_def)
qed

lemma sync_grid_eq:
  "sync_grid strftime clock fetched g
     = Inr (headers (get_all_roles g) #
            map (\<lambda>(k, m). base_cells strftime (now_aware clock k) m
                   @ map (\<lambda>r. yes_no (r \<in> role_name ` set (roles m))) (get_all_roles g))
              (enumerate 0 (humans (ensure_chunked fetched g))))"
  by (simp add: sync_grid_def get_member_data_eq data_rows_member_info)

lemma ensure_chunked_None [simp]: "ensure_chunked None g = g"
  by (simp add: ensure_chunked_def)

lemma ensure_chunked_chunked: "chunked g \<Longrightarrow> ensure_chunked fetched g = g"
  by (simp add: ensure_chunked_def)

lemma sheet_named_None: "(sheet_named t b = None) = (t \<notin> title ` set (sheets b))"
  by (auto simp: sheet_named_def find_None_iff)

lemma write_member_data_missing:
  assumes "sheets_service self" and "t \<notin> title ` set (sheets b)"
    and "data_rows members_data all_roles = Inr grid"
  shows "write_member_data self members_data all_roles t b
           = (Inl (SheetNotFound t), b\<lparr>calls := calls b @ [SpreadsheetsGet]\<rparr>)"
proof -
  from assms(2) have "sheet_named t b = None" by (simp add: sheet_named_None)
  with assms(1) have "clear_sheet self t b
      = (Inl (SheetNotFound t), b\<lparr>calls := calls b @ [SpreadsheetsGet]\<rparr>)"
    by (rule clear_sheet_missing)
  with assms(1,3) show ?thesis by (simp add: write_member_data_def)
qed

lemma sync_members_run:
  assumes "sheets_service self" and "google_sheet_id self = Some i" and "i \<noteq> []"
  shows "sync_members self strftime clock fetched author g t b =
     (let started = [Send ''Starting member synchronization...'',
                     Edit ''Collecting member data...'' None];
          (members_data, all_roles, g') = get_member_data strftime clock fetched g
      in if members_data = [] then (started @ [Edit nothing_to_sync None], g', b)
         else
           (let writing = started @
                  [Edit (''Writing '' @ str_nat (length members_data) @ '' members to ''
                         @ t @ '' sheet...'') None]
            in case write_member_data self members_data all_roles t b of
                 (Inl e, b') \<Rightarrow>
                   (writing @ [Edit (''Sync failed: '' @ str_error e) None], g', b')
               | (Inr member_count, b') \<Rightarrow>
                   (writing @
                      [Edit [] (Some (success_embed (now_aware clock (length members_data))
                                       member_count all_roles t (guild_name g') author))],
                    g', b')))"
  using assms by (simp add: sync_members_def)

lemma records_empty:
  "(fst (get_member_data strftime clock fetched g) = []) = (humans (ensure_chunked fetched g) = [])"
  by (simp add: get_member_data_eq enumerate_eq_zip)

lemma sync_grid_data_rows:
  "data_rows (fst (get_member_data strftime clock fetched g)) (get_all_roles g)
     = sync_grid strftime clock fetched g"
  by (simp add: sync_grid_def get_member_data_eq)

lemma cells_put_clear:
  "cells (put_values 0 0 grid (clear_columns 0 25 s)) (r, c)
     = (case grid_cell grid (r, c) of
          Some v \<Rightarrow> Some v
        | None \<Rightarrow> if c \<le> 25 then None else cells s (r, c))"
  by (simp add: put_values_def clear_columns_def grid_cell_def)

lemma full_replace_within_A_to_Z:
  assumes "sheets_service self" and "data_rows members_data all_roles = Inr grid"
    and "sheet_named t b = Some s"
    and "\<And>r c. 25 < c \<Longrightarrow> cells s (r, c) = None"
  shows "\<exists>b' s'. write_member_data self members_data all_roles t b = (Inr (length members_data), b')
           \<and> sheet_named t b' = Some s' \<and> (\<forall>r c. cells s' (r, c) = grid_cell grid (r, c))"
proof -
  from write_member_data_found [OF assms(1-3)] obtain b' where
    w: "write_member_data self members_data all_roles t b = (Inr (length members_data), b')"
    and n: "sheet_named t b' = Some (put_values 0 0 grid (clear_columns 0 25 s))"
    by blast
  have "cells (put_values 0 0 grid (clear_columns 0 25 s)) (r, c) = grid_cell grid (r, c)" for r c
    by (simp add: cells_put_clear assms(4) split: option.split)
  with w n show ?thesis by blast
qed

lemma length_headers [simp]: "length (headers cat) = 15 + length cat"
  by (simp add: headers_def base_headers_def)

lemma grid_cell_header:
  "grid_cell (headers cat # rows) (0, c) = (if c < 15 + length cat then Some (headers cat ! c) else None)"
  by (simp add: grid_cell_def)

lemma get_all_roles_ex_many: "get_all_roles ex_many = ex_wide"
  by (simp add: get_all_roles_def ex_many_def ex_guild_def ex_wide_def ex_everyone_def everyone_def
      enumerate_eq_zip upt_rec)

lemma get_all_roles_ex_bare: "get_all_roles ex_bare = []"
  by (simp add: get_all_roles_def ex_bare_def ex_guild_def ex_everyone_def everyone_def)

lemma headers_wide_26: "headers ex_wide ! 26 = PStr ''Role: L''"
  by (simp add: headers_def base_headers_def ex_wide_def)

subsection \<open>What a sync leaves unchanged\<close>

lemma only_cells_of_refl [simp]: "only_cells_of t ss ss"
  by (simp add: only_cells_of_def list_all2_same)

lemma only_cells_of_trans:
  assumes "only_cells_of t ss ss'" and "only_cells_of t ss' ss''"
  shows "only_cells_of t ss ss''"
proof -
  let ?P = "\<lambda>s s'. title s' = title s \<and> sheetId s' = sheetId s \<and> (title s = t \<or> s' = s)"
  have "list_all2 ?P ss ss''"
    by (rule list_all2_trans [OF _ assms(1) [unfolded only_cells_of_def]
          assms(2) [unfolded only_cells_of_def]]) auto
  then show ?thesis by (simp add: only_cells_of_def)
qed

lemma apply_first_only_cells:
  assumes "\<And>s. title (f s) = title s" "\<And>s. sheetId (f s) = sheetId s"
    and "apply_first t f ss = Some ss'"
  shows "only_cells_of t ss ss'"
  using assms(3)
proof (induction ss arbitrary: ss')
  case Nil
  then show ?case by simp
next
  case (Cons s ss)
  show ?case
  proof (cases "title s = t")
    case True
    with Cons.prems have "ss' = f s # ss" by simp
    with True show ?thesis
      by (simp add: only_cells_of_def assms(1,2) list_all2_same)
  next
    case False
    with Cons.prems obtain rest where r: "apply_first t f ss = Some rest" "ss' = s # rest"
      by auto
    from Cons.IH [OF r(1)] r(2) show ?thesis by (simp add: only_cells_of_def)
  qed
qed

lemma values_clear_frame: "only_cells_of t (sheets b) (sheets (snd (values_clear t lo hi b)))"
proof (cases "apply_first t (clear_columns lo hi) (sheets b)")
  case None
  then show ?thesis by (simp add: values_clear_def)
next
  case (Some ss)
  have "only_cells_of t (sheets b) ss"
    by (rule apply_first_only_cells [OF _ _ Some]) simp_all
  with Some show ?thesis by (simp add: values_clear_def)
qed

lemma values_update_frame: "only_cells_of t (sheets b) (sheets (snd (values_update t r c vs b)))"
proof (cases "apply_first t (put_values r c vs) (sheets b)")
  case None
  then show ?thesis by (simp add: values_update_def)
next
  case (Some ss)
  have "only_cells_of t (sheets b) ss"
    by (rule apply_first_only_cells [OF _ _ Some]) simp_all
  with Some show ?thesis by (simp add: values_update_def)
qed

lemma clear_sheet_frame: "only_cells_of t (sheets b) (sheets (snd (clear_sheet self t b)))"
proof -
  have "only_cells_of t (sheets (b\<lparr>calls := cs\<rparr>)) (sheets (snd (values_clear t 0 25 (b\<lparr>calls := cs\<rparr>))))" for cs
    by (rule values_clear_frame)
  then show ?thesis
    by (simp add: clear_sheet_def spreadsheets_get_def split: option.split)
qed

lemma write_member_data_frame:
  "only_cells_of t (sheets b) (sheets (snd (write_member_data self members_data all_roles t b)))"
proof (cases "sheets_service self")
  case False
  then show ?thesis by (simp add: write_member_data_def)
next
  case True
  show ?thesis
  proof (cases "data_rows members_data all_roles")
    case (Inl e)
    with True show ?thesis by (simp add: write_member_data_def)
  next
    case (Inr grid)
    obtain r1 b1 where c: "clear_sheet self t b = (r1, b1)" by (cases "clear_sheet self t b")
    from clear_sheet_frame [of t b self] c have f1: "only_cells_of t (sheets b) (sheets b1)"
      by simp
    show ?thesis
    proof (cases r1)
      case (Inl e)
      with True Inr c f1 show ?thesis by (simp add: write_member_data_def)
    next
      case u: (Inr u)
      obtain r2 b2 where v: "values_update t 0 0 grid b1 = (r2, b2)"
        by (cases "values_update t 0 0 grid b1")
      from values_update_frame [of t b1 0 0 grid] v have f2: "only_cells_of t (sheets b1) (sheets b2)"
        by simp
      have "snd (write_member_data self members_data all_roles t b) = b2"
        using True Inr c u v by (cases r2) (simp_all add: write_member_data_def)
      with only_cells_of_trans [OF f1 f2] show ?thesis by simp
    qed
  qed
qed

lemma sync_members_guild:
  "fst (snd (sync_members self strftime clock fetched author g t b)) = g
   \<or> fst (snd (sync_members self strftime clock fetched author g t b)) = ensure_chunked fetched g"
  by (simp add: sync_members_def get_member_data_eq Let_def split: option.split sum.split prod.split)

lemma sync_members_backend:
  "snd (snd (sync_members self strftime clock fetched author g t b)) = b
   \<or> snd (snd (sync_members self strftime clock fetched author g t b))
       = snd (write_member_data self (fst (get_member_data strftime clock fetched g))
                (get_all_roles g) t b)"
  by (auto simp: sync_members_def get_member_data_eq Let_def
      split: option.split sum.split prod.split)

lemma sync_members_sheets:
  "only_cells_of t (sheets b) (sheets (snd (snd (sync_members self strftime clock fetched author g t b))))"
  using sync_members_backend [of self strftime clock fetched author g t b]
    write_member_data_frame [of t b self "fst (get_member_data strftime clock fetched g)" "get_all_roles g"]
  by auto


lemma sync_members_guild_run:
  assumes "sheets_service self" and "google_sheet_id self = Some i" and "i \<noteq> []"
  shows "fst (snd (sync_members self strftime clock fetched author g t b)) = ensure_chunked fetched g"
  unfolding sync_members_run [OF assms]
  by (simp add: get_member_data_eq Let_def split: prod.split sum.split)

lemma ensure_chunked_cases:
  "ensure_chunked fetched g = g
   \<or> (\<not> chunked g \<and> (\<exists>ms. fetched = Some ms \<and> ensure_chunked fetched g = g\<lparr>members := ms, chunked := True\<rparr>))"
  by (cases fetched) (simp_all add: ensure_chunked_def)

lemma humans_ex_guild: "humans ex_guild = [ex_alice, ex_bob]"
  by (simp add: humans_def ex_guild_def ex_alice_def ex_bob_def ex_robot_def)

lemma member_roles_iff:
  "(r \<in> set (member_roles m)) = (r \<noteq> everyone \<and> r \<in> role_name ` set (roles m))"
  by (auto simp: member_roles_def)

lemma row_member_info_any:
  "row (member_info strftime now all_roles m) cat
     = Inr (base_cells strftime now m
            @ map (\<lambda>r. yes_no (r \<in> set all_roles \<and> r \<noteq> everyone \<and> r \<in> role_name ` set (roles m)))
                cat)"
  by (simp add: row_def base_row_member_info base_cells_def role_data_member_info member_roles_iff)

section \<open>The claims\<close>

subsection \<open>Role Catalog Builder\<close>

text \<open>
  C3. For every role list, in any order, \<open>get_all_roles\<close> returns the display names of
  the roles other than the one named by the everyone marker (the string \<^verbatim>\<open>@everyone\<close> in
  the code), sorted ascending; the marker never occurs in the result; two role lists
  that are permutations of each other give the same catalog; and a role list with no
  custom role gives the empty catalog.
\<close>

theorem get_all_roles_catalog:
  "sorted (get_all_roles g)
   \<and> mset (get_all_roles g) = mset (filter (\<lambda>n. n \<noteq> everyone) (map role_name (guild_roles g)))
   \<and> everyone \<notin> set (get_all_roles g)
   \<and> (mset (guild_roles g') = mset (guild_roles g) \<longrightarrow> get_all_roles g' = get_all_roles g)
   \<and> ((\<forall>r \<in> set (guild_roles g). role_name r = everyone) \<longrightarrow> get_all_roles g = [])"
proof -
  have a: "sorted (get_all_roles g)"
    by (simp add: get_all_roles_sort)
  have b: "mset (get_all_roles h) = mset (filter (\<lambda>n. n \<noteq> everyone) (map role_name (guild_roles h)))" for h
    by (simp add: get_all_roles_sort filter_map comp_def)
  have c: "everyone \<notin> set (get_all_roles g)"
    by (simp add: set_get_all_roles)
  have d: "get_all_roles g' = get_all_roles g" if "mset (guild_roles g') = mset (guild_roles g)"
  proof -
    from that have "mset (map role_name (filter (\<lambda>r. role_name r \<noteq> everyone) (guild_roles g')))
        = mset (map role_name (filter (\<lambda>r. role_name r \<noteq> everyone) (guild_roles g)))"
      by simp
    then show ?thesis
      unfolding get_all_roles_sort by (rule sorted_unique)
  qed
  have e: "get_all_roles g = []" if "\<forall>r \<in> set (guild_roles g). role_name r = everyone"
  proof -
    from that have "filter (\<lambda>r. role_name r \<noteq> everyone) (guild_roles g) = []"
      by (simp add: filter_empty_conv)
    then show ?thesis by (simp add: get_all_roles_sort)
  qed
  from a b c d e show ?thesis by blast
qed

theorem get_all_roles_catalog_witness:
  "mset (guild_roles ex_shuffled) = mset (guild_roles ex_guild)
   \<and> get_all_roles ex_shuffled = [''Admin'', ''Member'']
   \<and> get_all_roles ex_guild = [''Admin'', ''Member'']
   \<and> list_all (\<lambda>r. role_name r = everyone) (guild_roles ex_bare)
   \<and> get_all_roles ex_bare = []"
proof -
  have p: "mset (guild_roles ex_shuffled) = mset (guild_roles ex_guild)"
    by (simp add: ex_shuffled_def ex_guild_def)
  have v: "get_all_roles ex_guild = [''Admin'', ''Member'']"
    by (simp add: get_all_roles_def ex_guild_def ex_everyone_def ex_admin_def ex_member_def everyone_def)
  have q: "\<forall>r \<in> set (guild_roles ex_bare). role_name r = everyone"
    by (simp add: ex_bare_def ex_guild_def ex_everyone_def everyone_def)
  from get_all_roles_catalog [of ex_guild ex_shuffled] p
  have "get_all_roles ex_shuffled = get_all_roles ex_guild" by blast
  moreover from get_all_roles_catalog [of ex_bare ex_bare] q
  have "get_all_roles ex_bare = []" by blast
  ultimately show ?thesis using p v q by (simp add: list_all_iff)
qed

text \<open>
  C9. The catalog is said to hold no duplicate entries, also when two distinct roles
  share a display name. \<open>get_all_roles\<close> does not remove duplicates: for roles 4 and 5,
  both named \<^verbatim>\<open>Mod\<close>, the catalog holds \<^verbatim>\<open>Mod\<close> twice.
\<close>

theorem get_all_roles_twins:
  "get_all_roles ex_twins = [''Mod'', ''Mod''] \<and> \<not> distinct (get_all_roles ex_twins)
   \<and> role_id ex_mod \<noteq> role_id ex_mod2"
  by (simp add: get_all_roles_def ex_twins_def ex_guild_def ex_everyone_def ex_mod_def ex_mod2_def everyone_def)

subsection \<open>Member Record Extractor\<close>

text \<open>
  C4 (as amended). For every member that is not a bot, the \<^verbatim>\<open>highest_role\<close> field of the
  member's record is the display name of the member's top role, except that it is the
  literal \<^verbatim>\<open>Member\<close> when that name is \<^verbatim>\<open>@everyone\<close>.
\<close>

theorem highest_role_field:
  "map (\<lambda>d. d ''highest_role'') (fst (get_member_data strftime clock fetched g))
     = map (\<lambda>m. Some (PStr (if role_name (top_role m) = ''@everyone'' then ''Member''
                              else role_name (top_role m))))
         (humans (ensure_chunked fetched g))"
proof -
  have "map (\<lambda>d. d ''highest_role'') (fst (get_member_data strftime clock fetched g))
      = map (\<lambda>(k, m). Some (PStr (highest_role m))) (enumerate 0 (humans (ensure_chunked fetched g)))"
    by (simp add: get_member_data_eq comp_def case_prod_beta member_info_fields)
  also have "\<dots> = map (\<lambda>m. Some (PStr (highest_role m))) (humans (ensure_chunked fetched g))"
    by (rule map_enumerate_snd)
  finally show ?thesis
    by (simp add: highest_role_def everyone_def cong: if_cong)
qed

theorem highest_role_field_witness:
  "role_name (top_role ex_alice) = ''Member'' \<and> role_name (top_role ex_bob) = ''@everyone''
   \<and> map (\<lambda>d. d ''highest_role'') (fst (get_member_data ex_strftime ex_clock None ex_guild))
       = [Some (PStr ''Member''), Some (PStr ''Member'')]"
proof -
  have t: "role_name (top_role ex_alice) = ''Member''" "role_name (top_role ex_bob) = ''@everyone''"
    by (simp_all add: ex_alice_def ex_bob_def ex_member_def ex_everyone_def)
  from highest_role_field [of ex_strftime ex_clock None ex_guild] t
  show ?thesis by (simp add: humans_ex_guild)
qed

text \<open>
  C4 as stated takes the marker to be the string \<^verbatim>\<open>everyone\<close>. A human member whose top
  role is named \<^verbatim>\<open>everyone\<close>, without the at sign, gets the highest role \<^verbatim>\<open>everyone\<close>,
  not \<^verbatim>\<open>Member\<close>.
\<close>

theorem highest_role_plain_everyone:
  "ex_carol \<in> set (humans ex_carols)
   \<and> role_name (top_role ex_carol) = ''everyone''
   \<and> map (\<lambda>d. d ''highest_role'') (fst (get_member_data ex_strftime ex_clock None ex_carols))
       = [Some (PStr ''everyone'')]
   \<and> map (\<lambda>d. d ''highest_role'') (fst (get_member_data ex_strftime ex_clock None ex_carols))
       \<noteq> [Some (PStr ''Member'')]"
proof -
  have h: "humans ex_carols = [ex_carol]"
    by (simp add: humans_def ex_carols_def ex_guild_def ex_carol_def ex_bob_def)
  have t: "role_name (top_role ex_carol) = ''everyone''"
    by (simp add: ex_carol_def ex_plain_def)
  have "map (\<lambda>d. d ''highest_role'') (fst (get_member_data ex_strftime ex_clock None ex_carols))
       = [Some (PStr (highest_role ex_carol))]"
    by (simp add: get_member_data_eq h enumerate_simps member_info_fields)
  moreover have "highest_role ex_carol = ''everyone''"
    by (simp add: highest_role_def t everyone_def)
  moreover have "ex_carol \<in> set (humans ex_carols)"
    using h by simp
  ultimately show ?thesis using t by simp
qed


text \<open>
  C5. For every member list, the records are those of the members that are not bots,
  one record each, in the order of the member list (the field \<^verbatim>\<open>user_id\<close> shows which
  member a record is of); no bot gives a record; and the number of records is the
  number of members minus the number of bots.
\<close>

theorem bots_skipped:
  "fst (get_member_data strftime clock fetched g)
     = map (\<lambda>(k, m). member_info strftime (now_aware clock k) (get_all_roles g) m)
         (enumerate 0 (humans (ensure_chunked fetched g)))
   \<and> humans (ensure_chunked fetched g)
       = filter (\<lambda>m. \<not> is_bot m) (members (ensure_chunked fetched g))
   \<and> map (\<lambda>d. d ''user_id'') (fst (get_member_data strftime clock fetched g))
       = map (\<lambda>m. Some (PStr (str_nat (member_id m)))) (humans (ensure_chunked fetched g))
   \<and> length (fst (get_member_data strftime clock fetched g))
       = length (members (ensure_chunked fetched g))
         - length (filter is_bot (members (ensure_chunked fetched g)))
   \<and> length (fst (get_member_data strftime clock fetched g))
       + length (filter is_bot (members (ensure_chunked fetched g)))
       = length (members (ensure_chunked fetched g))"
proof -
  let ?M = "members (ensure_chunked fetched g)"
  have ids: "map (\<lambda>d. d ''user_id'') (fst (get_member_data strftime clock fetched g))
       = map (\<lambda>m. Some (PStr (str_nat (member_id m)))) (humans (ensure_chunked fetched g))"
  proof -
    have "map (\<lambda>d. d ''user_id'') (fst (get_member_data strftime clock fetched g))
        = map (\<lambda>(k, m). Some (PStr (str_nat (member_id m))))
            (enumerate 0 (humans (ensure_chunked fetched g)))"
      by (simp add: get_member_data_eq comp_def case_prod_beta member_info_fields)
    then show ?thesis by (simp only: map_enumerate_snd)
  qed
  have len: "length (fst (get_member_data strftime clock fetched g)) = length (filter (\<lambda>m. \<not> is_bot m) ?M)"
    by (simp add: get_member_data_eq humans_def)
  have "length (filter is_bot ?M) + length (filter (\<lambda>m. \<not> is_bot m) ?M) = length ?M"
    by (rule sum_length_filter_compl)
  with len ids show ?thesis
    by (simp add: get_member_data_eq humans_def)
qed

theorem bots_skipped_witness:
  "members ex_guild = [ex_alice, ex_robot, ex_bob] \<and> is_bot ex_robot
   \<and> map (\<lambda>d. d ''user_id'') (fst (get_member_data ex_strftime ex_clock None ex_guild))
       = [Some (PStr ''42''), Some (PStr ''43'')]
   \<and> length (fst (get_member_data ex_strftime ex_clock None ex_guild)) = 3 - 1"
proof -
  have m: "members ex_guild = [ex_alice, ex_robot, ex_bob]" by (simp add: ex_guild_def)
  have r: "is_bot ex_robot" "\<not> is_bot ex_alice" "\<not> is_bot ex_bob"
    by (simp_all add: ex_robot_def ex_bob_def ex_alice_def)
  have i: "str_nat (member_id ex_alice) = ''42''" "str_nat (member_id ex_bob) = ''43''"
    by (simp_all add: ex_alice_def ex_bob_def str_nat.simps digit_def)
  from bots_skipped [of ex_strftime ex_clock None ex_guild]
  have a: "map (\<lambda>d. d ''user_id'') (fst (get_member_data ex_strftime ex_clock None ex_guild))
       = map (\<lambda>m. Some (PStr (str_nat (member_id m)))) (humans (ensure_chunked None ex_guild))"
    and b: "length (fst (get_member_data ex_strftime ex_clock None ex_guild))
       = length (members (ensure_chunked None ex_guild))
         - length (filter is_bot (members (ensure_chunked None ex_guild)))"
    by blast+
  from a i have a': "map (\<lambda>d. d ''user_id'') (fst (get_member_data ex_strftime ex_clock None ex_guild))
       = [Some (PStr ''42''), Some (PStr ''43'')]"
    by (simp add: humans_ex_guild)
  from b m r have b': "length (fst (get_member_data ex_strftime ex_clock None ex_guild)) = 3 - 1"
    by simp
  from m r(1) a' b' show ?thesis by blast
qed

text \<open>
  C6. For every member that is not a bot: when the join time is absent, the field
  \<^verbatim>\<open>server_age_days\<close> is 0 and the field \<^verbatim>\<open>joined_server\<close> is \<^verbatim>\<open>Unknown\<close>; when it is
  present (and timezone-aware, as the current instant is), \<^verbatim>\<open>server_age_days\<close> is the
  number of whole days from the join time to the current instant, and \<^verbatim>\<open>joined_server\<close>
  is the formatted join time. For a naive join time the subtraction raises and the
  field is 0.
\<close>

theorem join_time_fields:
  "map (\<lambda>d. (d ''server_age_days'', d ''joined_server''))
       (fst (get_member_data strftime clock fetched g))
     = map (\<lambda>(k, m).
         case joined_at m of
           None \<Rightarrow> (Some (PInt 0), Some (PStr ''Unknown''))
         | Some j \<Rightarrow>
             (Some (PInt (if aware j then (clock k - instant j) div 86400000000 else 0)),
              Some (PStr (strftime j))))
       (enumerate 0 (humans (ensure_chunked fetched g)))"
proof -
  have "(member_info strftime (now_aware clock k) r m ''server_age_days'',
         member_info strftime (now_aware clock k) r m ''joined_server'')
      = (case joined_at m of
           None \<Rightarrow> (Some (PInt 0), Some (PStr ''Unknown''))
         | Some j \<Rightarrow>
             (Some (PInt (if aware j then (clock k - instant j) div 86400000000 else 0)),
              Some (PStr (strftime j))))" for k r m
    by (simp add: member_info_fields server_age_days_def delta_days_def now_aware_def
        usec_per_day_def split: option.split)
  then show ?thesis
    by (simp add: get_member_data_eq comp_def case_prod_beta)
qed

theorem join_time_fields_witness:
  "joined_at ex_alice = None \<and> joined_at ex_bob = Some ex_joined \<and> aware ex_joined
   \<and> map (\<lambda>d. (d ''server_age_days'', d ''joined_server''))
         (fst (get_member_data ex_strftime ex_clock None ex_guild))
       = [(Some (PInt 0), Some (PStr ''Unknown'')),
          (Some (PInt 3), Some (PStr (ex_strftime ex_joined)))]"
proof -
  have j: "joined_at ex_alice = None" "joined_at ex_bob = Some ex_joined" "aware ex_joined"
    by (simp_all add: ex_alice_def ex_bob_def ex_joined_def)
  have d: "(ex_clock 1 - instant ex_joined) div 86400000000 = 3"
    by (simp add: ex_clock_def ex_joined_def usec_per_day_def)
  from join_time_fields [of ex_strftime ex_clock None ex_guild] j d
  show ?thesis by (simp add: humans_ex_guild enumerate_eq_zip upt_rec)
qed

subsection \<open>Tabular Projector\<close>

text \<open>
  C2. For every member record and every role catalog, the row of the record carries
  fifteen base cells and then one cell for each catalog entry, in catalog order. The
  cell of an entry for which the record has no role column is \<^verbatim>\<open>No\<close> (the default of
  \<^verbatim>\<open>member.get\<close>). The cell of an entry of the catalog that the record was built from is
  \<^verbatim>\<open>Yes\<close> if the member holds a role of exactly that display name and \<^verbatim>\<open>No\<close> otherwise; so
  are the role cells of the data rows of the grid of a sync. With the catalog
  \<^verbatim>\<open>["Admin", "Member"]\<close> and a member who holds \<^verbatim>\<open>Member\<close> and not \<^verbatim>\<open>Admin\<close>, the role cells
  are \<^verbatim>\<open>["No", "Yes"]\<close>.
\<close>

theorem role_cells:
  "row (member_info strftime now all_roles m) cat
     = Inr (base_cells strftime now m
            @ map (\<lambda>r. yes_no (r \<in> set all_roles \<and> r \<noteq> everyone \<and> r \<in> role_name ` set (roles m)))
                cat)
   \<and> length (base_cells strftime now m) = 15
   \<and> (i < length cat \<and> cat ! i \<notin> set all_roles \<longrightarrow>
        (\<exists>cells. row (member_info strftime now all_roles m) cat
                   = Inr (base_cells strftime now m @ cells)
           \<and> length cells = length cat \<and> cells ! i = PStr ''No''))
   \<and> (i < length cat \<and> cat ! i \<in> set all_roles \<and> everyone \<notin> set all_roles \<longrightarrow>
        (\<exists>cells. row (member_info strftime now all_roles m) cat
                   = Inr (base_cells strftime now m @ cells)
           \<and> length cells = length cat
           \<and> cells ! i = yes_no (cat ! i \<in> role_name ` set (roles m))))
   \<and> (\<exists>bs. length bs = 15 \<and>
      row (member_info strftime now (get_all_roles g) m) (get_all_roles g)
        = Inr (bs @ map (\<lambda>r. yes_no (r \<in> role_name ` set (roles m))) (get_all_roles g)))
   \<and> (\<exists>rows. sync_grid strftime clock fetched g = Inr (headers (get_all_roles g) # rows)
        \<and> map (take 15) rows
            = map (\<lambda>(k, m). base_cells strftime (now_aware clock k) m)
                (enumerate 0 (humans (ensure_chunked fetched g)))
        \<and> map (drop 15) rows
            = map (\<lambda>m. map (\<lambda>r. yes_no (r \<in> role_name ` set (roles m))) (get_all_roles g))
                (humans (ensure_chunked fetched g)))
   \<and> (get_all_roles g = [''Admin'', ''Member'']
        \<and> ''Member'' \<in> role_name ` set (roles m) \<and> ''Admin'' \<notin> role_name ` set (roles m)
      \<longrightarrow> (\<exists>bs. length bs = 15 \<and>
            row (member_info strftime now (get_all_roles g) m) (get_all_roles g)
              = Inr (bs @ [PStr ''No'', PStr ''Yes''])))"
proof -
  let ?cells = "map (\<lambda>r. yes_no (r \<in> set all_roles \<and> r \<noteq> everyone \<and> r \<in> role_name ` set (roles m))) cat"
  have g: "row (member_info strftime now all_roles m) cat
     = Inr (base_cells strftime now m @ ?cells)"
    by (rule row_member_info_any)
  have l: "length (base_cells strftime now m) = 15" by simp
  have miss: "\<exists>cells. row (member_info strftime now all_roles m) cat
                   = Inr (base_cells strftime now m @ cells)
           \<and> length cells = length cat \<and> cells ! i = PStr ''No''"
    if "i < length cat" "cat ! i \<notin> set all_roles"
  proof -
    from that have "?cells ! i = PStr ''No''" by (simp add: yes_no_def)
    with g show ?thesis by (intro exI [of _ ?cells]) simp
  qed
  have hit: "\<exists>cells. row (member_info strftime now all_roles m) cat
                   = Inr (base_cells strftime now m @ cells)
           \<and> length cells = length cat
           \<and> cells ! i = yes_no (cat ! i \<in> role_name ` set (roles m))"
    if "i < length cat" "cat ! i \<in> set all_roles" "everyone \<notin> set all_roles"
  proof -
    from that have "cat ! i \<noteq> everyone" by auto
    with that have "?cells ! i = yes_no (cat ! i \<in> role_name ` set (roles m))" by simp
    with g show ?thesis by (intro exI [of _ ?cells]) simp
  qed
  have a: "\<exists>bs. length bs = 15 \<and>
      row (member_info strftime now (get_all_roles g) m) (get_all_roles g)
        = Inr (bs @ map (\<lambda>r. yes_no (r \<in> role_name ` set (roles m))) (get_all_roles g))"
    by (rule row_member_info)
  let ?rows = "map (\<lambda>(k, m). base_cells strftime (now_aware clock k) m
                   @ map (\<lambda>r. yes_no (r \<in> role_name ` set (roles m))) (get_all_roles g))
              (enumerate 0 (humans (ensure_chunked fetched g)))"
  have b1: "map (take 15) ?rows
            = map (\<lambda>(k, m). base_cells strftime (now_aware clock k) m)
                (enumerate 0 (humans (ensure_chunked fetched g)))"
    by (simp add: comp_def case_prod_beta)
  have "map (drop 15) ?rows
      = map (\<lambda>(k, m). map (\<lambda>r. yes_no (r \<in> role_name ` set (roles m))) (get_all_roles g))
          (enumerate 0 (humans (ensure_chunked fetched g)))"
    by (simp add: comp_def case_prod_beta)
  then have b2: "map (drop 15) ?rows
      = map (\<lambda>m. map (\<lambda>r. yes_no (r \<in> role_name ` set (roles m))) (get_all_roles g))
          (humans (ensure_chunked fetched g))"
    by (simp only: map_enumerate_snd)
  have b: "\<exists>rows. sync_grid strftime clock fetched g = Inr (headers (get_all_roles g) # rows)
        \<and> map (take 15) rows
            = map (\<lambda>(k, m). base_cells strftime (now_aware clock k) m)
                (enumerate 0 (humans (ensure_chunked fetched g)))
        \<and> map (drop 15) rows
            = map (\<lambda>m. map (\<lambda>r. yes_no (r \<in> role_name ` set (roles m))) (get_all_roles g))
                (humans (ensure_chunked fetched g))"
    using sync_grid_eq [of strftime clock fetched g] b1 b2 by blast
  have c: "\<exists>bs. length bs = 15 \<and>
            row (member_info strftime now (get_all_roles g) m) (get_all_roles g)
              = Inr (bs @ [PStr ''No'', PStr ''Yes''])"
    if "get_all_roles g = [''Admin'', ''Member'']"
      and "''Member'' \<in> role_name ` set (roles m)" and "''Admin'' \<notin> role_name ` set (roles m)"
    using a that by (simp add: yes_no_def)
  from g l miss hit a b c show ?thesis by blast
qed


theorem role_cells_witness:
  "get_all_roles ex_guild = [''Admin'', ''Member'']
   \<and> ''Member'' \<in> role_name ` set (roles ex_alice)
   \<and> ''Admin'' \<notin> role_name ` set (roles ex_alice)
   \<and> (\<exists>bs. length bs = 15 \<and>
         row (member_info ex_strftime (now_aware ex_clock 0) [''Admin'', ''Member''] ex_alice)
           [''Admin'', ''Member'']
         = Inr (bs @ [PStr ''No'', PStr ''Yes'']))
   \<and> ''Ghost'' \<notin> set [''Admin'', ''Member'']
   \<and> row (member_info ex_strftime (now_aware ex_clock 0) [''Admin'', ''Member''] ex_alice)
         [''Ghost'', ''Member'', ''Admin'']
       = Inr (base_cells ex_strftime (now_aware ex_clock 0) ex_alice
              @ [PStr ''No'', PStr ''Yes'', PStr ''No''])
   \<and> row (member_info ex_strftime (now_aware ex_clock 0) [] ex_alice) [''Member'']
       = Inr (base_cells ex_strftime (now_aware ex_clock 0) ex_alice @ [PStr ''No''])"
proof -
  have v: "get_all_roles ex_guild = [''Admin'', ''Member'']"
    by (simp add: get_all_roles_def ex_guild_def ex_everyone_def ex_admin_def ex_member_def everyone_def)
  have m: "''Member'' \<in> role_name ` set (roles ex_alice)"
    by (simp add: ex_alice_def ex_everyone_def ex_member_def)
  have n: "''Admin'' \<notin> role_name ` set (roles ex_alice)"
    by (simp add: ex_alice_def ex_everyone_def ex_member_def)
  have gh: "''Ghost'' \<notin> role_name ` set (roles ex_alice)"
    by (simp add: ex_alice_def ex_everyone_def ex_member_def)
  note t = role_cells [where strftime = ex_strftime and now = "now_aware ex_clock 0"
      and m = ex_alice and g = ex_guild and clock = ex_clock and fetched = None]
  from t [where all_roles = "[''Admin'', ''Member'']" and cat = "[''Admin'', ''Member'']" and i = 0]
    v m n
  have a: "\<exists>bs. length bs = 15 \<and>
         row (member_info ex_strftime (now_aware ex_clock 0) (get_all_roles ex_guild) ex_alice)
           (get_all_roles ex_guild)
         = Inr (bs @ [PStr ''No'', PStr ''Yes''])"
    by blast
  from t [where all_roles = "[''Admin'', ''Member'']" and cat = "[''Ghost'', ''Member'', ''Admin'']"
      and i = 0]
  have "row (member_info ex_strftime (now_aware ex_clock 0) [''Admin'', ''Member''] ex_alice)
         [''Ghost'', ''Member'', ''Admin'']
       = Inr (base_cells ex_strftime (now_aware ex_clock 0) ex_alice
            @ map (\<lambda>r. yes_no (r \<in> set [''Admin'', ''Member''] \<and> r \<noteq> everyone
                                \<and> r \<in> role_name ` set (roles ex_alice)))
                [''Ghost'', ''Member'', ''Admin''])"
    by blast
  then have b: "row (member_info ex_strftime (now_aware ex_clock 0) [''Admin'', ''Member''] ex_alice)
         [''Ghost'', ''Member'', ''Admin'']
       = Inr (base_cells ex_strftime (now_aware ex_clock 0) ex_alice
              @ [PStr ''No'', PStr ''Yes'', PStr ''No''])"
    using m n gh by (simp add: yes_no_def everyone_def)
  from t [where all_roles = "[]" and cat = "[''Member'']" and i = 0]
  have c: "row (member_info ex_strftime (now_aware ex_clock 0) [] ex_alice) [''Member'']
       = Inr (base_cells ex_strftime (now_aware ex_clock 0) ex_alice @ [PStr ''No''])"
    by (simp add: yes_no_def)
  from v m n a b c show ?thesis by simp
qed

subsection \<open>Sheet Writer\<close>

text \<open>
  C1. Writing one grid and then another to the same sheet is said to leave exactly the
  second grid's cells. \<open>clear_sheet\<close> clears the range \<^verbatim>\<open>A:Z\<close> only. A sync of a guild with
  twelve custom roles writes 27 columns, the header \<^verbatim>\<open>Role: L\<close> into cell \<^verbatim>\<open>AA1\<close> (row 0,
  column 26); a later sync with no custom role writes 15 columns, and \<^verbatim>\<open>AA1\<close> still
  holds \<^verbatim>\<open>Role: L\<close>. Likewise a value that the sheet held in column \<^verbatim>\<open>AE\<close> before a write
  is there after it.
\<close>

theorem clear_stops_at_column_Z:
  "get_all_roles ex_many = ex_wide \<and> length ex_wide = 12
   \<and> get_all_roles ex_bare = []
   \<and> fst ex_first_write = Inr 2
   \<and> fst ex_second_write = Inr 2
   \<and> (\<exists>grid2. sync_grid ex_strftime ex_clock None ex_bare = Inr grid2
         \<and> grid_cell grid2 (0, 26) = None)
   \<and> (\<exists>s. sheet_named ''Benji'' (snd ex_second_write) = Some s
         \<and> cells s (0, 26) = Some (PStr ''Role: L''))
   \<and> fst ex_third_write = Inr 2
   \<and> (\<exists>grid2. sync_grid ex_strftime ex_clock None ex_bare = Inr grid2
         \<and> grid_cell grid2 (0, 30) = None)
   \<and> (\<exists>s. sheet_named ''Benji'' (snd ex_third_write) = Some s
         \<and> cells s (0, 30) = Some (PStr ''stale''))"
proof -
  have s: "sheets_service ex_cog" by (simp add: ex_cog_def)
  let ?md1 = "fst (get_member_data ex_strftime ex_clock None ex_many)"
  let ?md2 = "fst (get_member_data ex_strftime ex_clock None ex_bare)"
  have h1: "humans ex_many = [ex_alice, ex_bob]"
    by (simp add: humans_def ex_many_def ex_guild_def ex_alice_def ex_bob_def ex_robot_def)
  have h2: "humans ex_bare = [ex_alice, ex_bob]"
    by (simp add: humans_def ex_bare_def ex_guild_def ex_alice_def ex_bob_def ex_robot_def)
  have l1: "length ?md1 = 2" by (simp add: get_member_data_eq h1)
  have l2: "length ?md2 = 2" by (simp add: get_member_data_eq h2)
  have "\<exists>rows. data_rows ?md1 (get_all_roles ex_many) = Inr (headers (get_all_roles ex_many) # rows)"
    unfolding sync_grid_data_rows sync_grid_eq by blast
  then obtain rows1 where g1: "data_rows ?md1 (get_all_roles ex_many) = Inr (headers ex_wide # rows1)"
    unfolding get_all_roles_ex_many by blast
  have "\<exists>rows. data_rows ?md2 (get_all_roles ex_bare) = Inr (headers (get_all_roles ex_bare) # rows)"
    unfolding sync_grid_data_rows sync_grid_eq by blast
  then obtain rows2 where g2: "data_rows ?md2 (get_all_roles ex_bare) = Inr (headers [] # rows2)"
    unfolding get_all_roles_ex_bare by blast
  have n0: "sheet_named ''Benji'' ex_backend
              = Some \<lparr>title = ''Benji'', sheetId = 0, cells = (\<lambda>p. None)\<rparr>"
    by (simp add: sheet_named_def ex_backend_def)
  from write_member_data_found [OF s g1 n0] obtain b1 where
    w1: "write_member_data ex_cog ?md1 (get_all_roles ex_many) ''Benji'' ex_backend
           = (Inr (length ?md1), b1)"
    and n1: "sheet_named ''Benji'' b1
           = Some (put_values 0 0 (headers ex_wide # rows1)
                     (clear_columns 0 25 \<lparr>title = ''Benji'', sheetId = 0, cells = (\<lambda>p. None)\<rparr>))"
    by blast
  from w1 have f1: "ex_first_write = (Inr (length ?md1), b1)"
    by (simp add: ex_first_write_def)
  from write_member_data_found [OF s g2 n1] obtain b2 where
    w2: "write_member_data ex_cog ?md2 (get_all_roles ex_bare) ''Benji'' b1
           = (Inr (length ?md2), b2)"
    and n2: "sheet_named ''Benji'' b2
           = Some (put_values 0 0 (headers [] # rows2)
                (clear_columns 0 25
                  (put_values 0 0 (headers ex_wide # rows1)
                     (clear_columns 0 25 \<lparr>title = ''Benji'', sheetId = 0, cells = (\<lambda>p. None)\<rparr>))))"
    by blast
  have f2: "ex_second_write = (Inr (length ?md2), b2)"
    unfolding ex_second_write_def f1 snd_conv by (rule w2)
  have none2: "grid_cell (headers [] # rows2) (0, 26) = None"
    by (simp add: grid_cell_header)
  have some1: "grid_cell (headers ex_wide # rows1) (0, 26) = Some (PStr ''Role: L'')"
    by (simp add: grid_cell_header headers_wide_26) (simp add: ex_wide_def)
  have residue: "cells (put_values 0 0 (headers [] # rows2)
                (clear_columns 0 25
                  (put_values 0 0 (headers ex_wide # rows1)
                     (clear_columns 0 25 \<lparr>title = ''Benji'', sheetId = 0, cells = (\<lambda>p. None)\<rparr>))))
             (0, 26) = Some (PStr ''Role: L'')"
    by (simp only: cells_put_clear none2 some1 option.case) simp
  have grid2: "sync_grid ex_strftime ex_clock None ex_bare = Inr (headers [] # rows2)"
    using g2 by (simp add: sync_grid_data_rows)
  have r1: "fst ex_first_write = Inr 2"
    unfolding f1 fst_conv l1 by (rule refl)
  have r2: "fst ex_second_write = Inr 2"
    unfolding f2 fst_conv l2 by (rule refl)
  have r3: "\<exists>s. sheet_named ''Benji'' (snd ex_second_write) = Some s
         \<and> cells s (0, 26) = Some (PStr ''Role: L'')"
    unfolding f2 snd_conv using n2 residue by blast
  have r4: "\<exists>grid2. sync_grid ex_strftime ex_clock None ex_bare = Inr grid2
         \<and> grid_cell grid2 (0, 26) = None"
    using grid2 none2 by blast
  have r5: "length ex_wide = 12" by (simp add: ex_wide_def)
  have n3: "sheet_named ''Benji'' ex_stale
              = Some \<lparr>title = ''Benji'', sheetId = 0,
                      cells = (\<lambda>p. if p = (0, 30) then Some (PStr ''stale'') else None)\<rparr>"
    by (simp add: sheet_named_def ex_stale_def)
  from write_member_data_found [OF s g2 n3] obtain b3 where
    w3: "write_member_data ex_cog ?md2 (get_all_roles ex_bare) ''Benji'' ex_stale
           = (Inr (length ?md2), b3)"
    and n4: "sheet_named ''Benji'' b3
           = Some (put_values 0 0 (headers [] # rows2)
                (clear_columns 0 25
                  \<lparr>title = ''Benji'', sheetId = 0,
                   cells = (\<lambda>p. if p = (0, 30) then Some (PStr ''stale'') else None)\<rparr>))"
    by blast
  have f3: "ex_third_write = (Inr (length ?md2), b3)"
    unfolding ex_third_write_def by (rule w3)
  have none3: "grid_cell (headers [] # rows2) (0, 30) = None"
    by (simp add: grid_cell_header)
  have stale: "cells (put_values 0 0 (headers [] # rows2)
                (clear_columns 0 25
                  \<lparr>title = ''Benji'', sheetId = 0,
                   cells = (\<lambda>p. if p = (0, 30) then Some (PStr ''stale'') else None)\<rparr>))
             (0, 30) = Some (PStr ''stale'')"
    by (simp only: cells_put_clear none3 option.case) simp
  have r6: "fst ex_third_write = Inr 2"
    unfolding f3 fst_conv l2 by (rule refl)
  have r7: "\<exists>grid2. sync_grid ex_strftime ex_clock None ex_bare = Inr grid2
         \<and> grid_cell grid2 (0, 30) = None"
    using grid2 none3 by blast
  have r8: "\<exists>s. sheet_named ''Benji'' (snd ex_third_write) = Some s
         \<and> cells s (0, 30) = Some (PStr ''stale'')"
    unfolding f3 snd_conv using n4 stale by blast
  from get_all_roles_ex_many r5 get_all_roles_ex_bare r1 r2 r4 r3 r6 r7 r8 show ?thesis
    by (intro conjI)
qed


text \<open>
  C7. For every sheet name that is not the title of a sheet of the spreadsheet,
  \<open>clear_sheet\<close> and \<open>write_member_data\<close> fail with the error that the sheet was not found;
  the only request made is the one that reads the sheet titles, none clears or writes;
  the sheets are unchanged; and \<open>sync_members\<close> reports the error once, without
  another attempt.
\<close>

theorem missing_sheet:
  "sheets_service self \<and> t \<notin> title ` set (sheets b) \<longrightarrow>
     clear_sheet self t b = (Inl (SheetNotFound t), b\<lparr>calls := calls b @ [SpreadsheetsGet]\<rparr>)
     \<and> (data_rows members_data all_roles = Inr grid \<longrightarrow>
          write_member_data self members_data all_roles t b
            = (Inl (SheetNotFound t), b\<lparr>calls := calls b @ [SpreadsheetsGet]\<rparr>))
     \<and> sheets (snd (write_member_data self members_data all_roles t b)) = sheets b
     \<and> (google_sheet_id self = Some i \<and> i \<noteq> [] \<and> humans (ensure_chunked fetched g) \<noteq> [] \<longrightarrow>
          (\<exists>shown. sync_members self strftime clock fetched author g t b
             = (shown @ [Edit (''Sync failed: '' @ str_error (SheetNotFound t)) None],
                ensure_chunked fetched g,
                b\<lparr>calls := calls b @ [SpreadsheetsGet]\<rparr>)))"
proof (intro impI)
  assume a: "sheets_service self \<and> t \<notin> title ` set (sheets b)"
  then have s: "sheets_service self" and m: "t \<notin> title ` set (sheets b)" by simp_all
  from m have n: "sheet_named t b = None" by (simp add: sheet_named_None)
  have c: "clear_sheet self t b = (Inl (SheetNotFound t), b\<lparr>calls := calls b @ [SpreadsheetsGet]\<rparr>)"
    using s n by (rule clear_sheet_missing)
  have w: "write_member_data self md ar t b
            = (Inl (SheetNotFound t), b\<lparr>calls := calls b @ [SpreadsheetsGet]\<rparr>)"
    if "data_rows md ar = Inr gr" for md ar gr
    using s m that by (rule write_member_data_missing)
  have u: "sheets (snd (write_member_data self members_data all_roles t b)) = sheets b"
  proof (cases "data_rows members_data all_roles")
    case (Inl e)
    with s show ?thesis by (simp add: write_member_data_def)
  next
    case (Inr gr)
    from w [OF this] show ?thesis by simp
  qed
  have y: "\<exists>shown. sync_members self strftime clock fetched author g t b
             = (shown @ [Edit (''Sync failed: '' @ str_error (SheetNotFound t)) None],
                ensure_chunked fetched g,
                b\<lparr>calls := calls b @ [SpreadsheetsGet]\<rparr>)"
    if i: "google_sheet_id self = Some i" "i \<noteq> []" and h: "humans (ensure_chunked fetched g) \<noteq> []"
  proof -
    let ?md = "fst (get_member_data strftime clock fetched g)"
    have ne: "?md \<noteq> []" using h by (simp add: records_empty)
    obtain gr where "data_rows ?md (get_all_roles g) = Inr gr"
      by (simp add: sync_grid_data_rows sync_grid_eq)
    from w [OF this]
    have "write_member_data self ?md (get_all_roles g) t b
            = (Inl (SheetNotFound t), b\<lparr>calls := calls b @ [SpreadsheetsGet]\<rparr>)" .
    with ne show ?thesis
      unfolding sync_members_run [OF s i]
      by (simp add: get_member_data_eq Let_def del: str_error.simps)
  qed
  from c w u y
  show "clear_sheet self t b = (Inl (SheetNotFound t), b\<lparr>calls := calls b @ [SpreadsheetsGet]\<rparr>)
     \<and> (data_rows members_data all_roles = Inr grid \<longrightarrow>
          write_member_data self members_data all_roles t b
            = (Inl (SheetNotFound t), b\<lparr>calls := calls b @ [SpreadsheetsGet]\<rparr>))
     \<and> sheets (snd (write_member_data self members_data all_roles t b)) = sheets b
     \<and> (google_sheet_id self = Some i \<and> i \<noteq> [] \<and> humans (ensure_chunked fetched g) \<noteq> [] \<longrightarrow>
          (\<exists>shown. sync_members self strftime clock fetched author g t b
             = (shown @ [Edit (''Sync failed: '' @ str_error (SheetNotFound t)) None],
                ensure_chunked fetched g,
                b\<lparr>calls := calls b @ [SpreadsheetsGet]\<rparr>)))"
    by blast
qed


theorem missing_sheet_witness:
  "sheets_service ex_cog \<and> ''Missing'' \<notin> title ` set (sheets ex_backend)
   \<and> data_rows [] [] = Inr [headers []]
   \<and> clear_sheet ex_cog ''Missing'' ex_backend
       = (Inl (SheetNotFound ''Missing''), ex_backend\<lparr>calls := [SpreadsheetsGet]\<rparr>)
   \<and> write_member_data ex_cog [] [] ''Missing'' ex_backend
       = (Inl (SheetNotFound ''Missing''), ex_backend\<lparr>calls := [SpreadsheetsGet]\<rparr>)
   \<and> google_sheet_id ex_cog = Some ''sheet-1''
   \<and> humans (ensure_chunked None ex_guild) = [ex_alice, ex_bob]
   \<and> (\<exists>shown. sync_members ex_cog ex_strftime ex_clock None ''ann'' ex_guild ''Missing'' ex_backend
         = (shown @ [Edit (''Sync failed: '' @ str_error (SheetNotFound ''Missing'')) None],
            ex_guild, ex_backend\<lparr>calls := [SpreadsheetsGet]\<rparr>))"
proof -
  have s: "sheets_service ex_cog" by (simp add: ex_cog_def)
  have m: "''Missing'' \<notin> title ` set (sheets ex_backend)" by (simp add: ex_backend_def)
  have d: "data_rows [] [] = Inr [headers []]" by (simp add: data_rows_def)
  have i: "google_sheet_id ex_cog = Some ''sheet-1''" by (simp add: ex_cog_def)
  have e: "ensure_chunked None ex_guild = ex_guild" by simp
  have h: "humans (ensure_chunked None ex_guild) = [ex_alice, ex_bob]"
    by (simp add: humans_def ex_guild_def ex_alice_def ex_bob_def ex_robot_def)
  have c: "calls ex_backend = []" by (simp add: ex_backend_def)
  from missing_sheet [of ex_cog "''Missing''" ex_backend "[]" "[]" "[headers []]" "''sheet-1''"
      None ex_guild ex_strftime ex_clock "''ann''"] s m d i h
  show ?thesis by (simp add: c e)
qed

subsection \<open>Sync Orchestrator\<close>

text \<open>
  C8 (as amended). When every member of the guild is a bot, \<open>sync_members\<close> collects 0
  records and makes no request to the spreadsheet service, whose state and request
  log are unchanged. With the service available and the sheet id configured it ends
  with the message \<^verbatim>\<open>No human members found to sync (only bots in server?)\<close>, which is
  neither the failure message nor the summary of a finished sync: no count is
  reported. With the service unavailable or the sheet id not configured it ends with
  the message of that check.
\<close>

theorem nothing_to_sync_outcome:
  "list_all is_bot (members (ensure_chunked fetched g)) \<longrightarrow>
   sync_members self strftime clock fetched author g t b
     = (if \<not> sheets_service self
        then ([Send ''Google Sheets service not available''], g, b)
        else if (case google_sheet_id self of None \<Rightarrow> True | Some i \<Rightarrow> i = [])
        then ([Send ''Google Sheet ID not configured''], g, b)
        else ([Send ''Starting member synchronization...'',
               Edit ''Collecting member data...'' None,
               Edit ''No human members found to sync (only bots in server?)'' None],
              ensure_chunked fetched g, b))
   \<and> length (fst (get_member_data strftime clock fetched g)) = 0
   \<and> (\<forall>e. last (fst (sync_members self strftime clock fetched author g t b))
          \<noteq> Edit (''Sync failed: '' @ e) None)
   \<and> \<not> list_ex shows_summary (fst (sync_members self strftime clock fetched author g t b))
   \<and> snd (snd (sync_members self strftime clock fetched author g t b)) = b"
proof (intro impI)
  assume bots: "list_all is_bot (members (ensure_chunked fetched g))"
  then have h: "humans (ensure_chunked fetched g) = []"
    by (simp add: humans_def list_all_iff filter_empty_conv)
  then have r: "fst (get_member_data strftime clock fetched g) = []"
    by (simp add: records_empty)
  have run: "sync_members self strftime clock fetched author g t b
     = (if \<not> sheets_service self
        then ([Send ''Google Sheets service not available''], g, b)
        else if (case google_sheet_id self of None \<Rightarrow> True | Some i \<Rightarrow> i = [])
        then ([Send ''Google Sheet ID not configured''], g, b)
        else ([Send ''Starting member synchronization...'',
               Edit ''Collecting member data...'' None,
               Edit ''No human members found to sync (only bots in server?)'' None],
              ensure_chunked fetched g, b))"
    using h by (simp add: sync_members_def get_member_data_eq nothing_to_sync_def)
  show "sync_members self strftime clock fetched author g t b
     = (if \<not> sheets_service self
        then ([Send ''Google Sheets service not available''], g, b)
        else if (case google_sheet_id self of None \<Rightarrow> True | Some i \<Rightarrow> i = [])
        then ([Send ''Google Sheet ID not configured''], g, b)
        else ([Send ''Starting member synchronization...'',
               Edit ''Collecting member data...'' None,
               Edit ''No human members found to sync (only bots in server?)'' None],
              ensure_chunked fetched g, b))
   \<and> length (fst (get_member_data strftime clock fetched g)) = 0
   \<and> (\<forall>e. last (fst (sync_members self strftime clock fetched author g t b))
          \<noteq> Edit (''Sync failed: '' @ e) None)
   \<and> \<not> list_ex shows_summary (fst (sync_members self strftime clock fetched author g t b))
   \<and> snd (snd (sync_members self strftime clock fetched author g t b)) = b"
    by (simp add: run r)
qed

theorem nothing_to_sync_outcome_witness:
  "list_all is_bot (members (ensure_chunked None ex_bots))
   \<and> sheets_service ex_cog \<and> google_sheet_id ex_cog = Some ''sheet-1''
   \<and> sync_members ex_cog ex_strftime ex_clock None ''ann'' ex_bots ''Benji'' ex_backend
       = ([Send ''Starting member synchronization...'',
           Edit ''Collecting member data...'' None,
           Edit ''No human members found to sync (only bots in server?)'' None],
          ex_bots, ex_backend)
   \<and> calls ex_backend = []"
proof -
  have s: "sheets_service ex_cog" by (simp add: ex_cog_def)
  have i: "google_sheet_id ex_cog = Some ''sheet-1''" by (simp add: ex_cog_def)
  have b: "list_all is_bot (members (ensure_chunked None ex_bots))"
    by (simp add: ex_bots_def ex_robot_def)
  have c: "calls ex_backend = []" by (simp add: ex_backend_def)
  from nothing_to_sync_outcome [where self = ex_cog and fetched = None and g = ex_bots
      and strftime = ex_strftime and clock = ex_clock and author = "''ann''" and t = "''Benji''"
      and b = ex_backend] s i b
  show ?thesis by (simp add: c)
qed

text \<open>
  C8 as stated says that the outcome carries a result with the count 0, for every
  invocation. For a guild of bots the command shows three messages, none of which is
  the summary with its counts; and when the service is not available it shows the
  message of that check, not the one that tells that there is nothing to sync.
\<close>

theorem nothing_to_sync_shows_no_count:
  "list_all is_bot (members ex_bots)
   \<and> fst (sync_members ex_cog ex_strftime ex_clock None ''ann'' ex_bots ''Benji'' ex_backend)
       = [Send ''Starting member synchronization...'',
          Edit ''Collecting member data...'' None,
          Edit ''No human members found to sync (only bots in server?)'' None]
   \<and> \<not> list_ex shows_summary
         (fst (sync_members ex_cog ex_strftime ex_clock None ''ann'' ex_bots ''Benji'' ex_backend))
   \<and> (\<forall>now. last (fst (sync_members ex_cog ex_strftime ex_clock None ''ann'' ex_bots ''Benji''
                           ex_backend))
          \<noteq> Edit [] (Some (success_embed now 0 (get_all_roles ex_bots) ''Benji''
                              (guild_name ex_bots) ''ann'')))
   \<and> fst (sync_members ex_unready ex_strftime ex_clock None ''ann'' ex_bots ''Benji'' ex_backend)
       = [Send ''Google Sheets service not available'']
   \<and> fst (sync_members ex_unready ex_strftime ex_clock None ''ann'' ex_bots ''Benji'' ex_backend)
       \<noteq> [Send ''Starting member synchronization...'',
           Edit ''Collecting member data...'' None,
           Edit ''No human members found to sync (only bots in server?)'' None]"
proof -
  have b: "list_all is_bot (members ex_bots)"
    by (simp add: ex_bots_def ex_robot_def)
  then have h: "humans ex_bots = []"
    by (simp add: humans_def list_all_iff filter_empty_conv)
  have s: "sheets_service ex_cog" and i: "google_sheet_id ex_cog = Some ''sheet-1''"
    by (simp_all add: ex_cog_def)
  have ne: "''sheet-1'' \<noteq> []" by simp
  have run: "fst (sync_members ex_cog ex_strftime ex_clock None ''ann'' ex_bots ''Benji'' ex_backend)
       = [Send ''Starting member synchronization...'',
          Edit ''Collecting member data...'' None,
          Edit ''No human members found to sync (only bots in server?)'' None]"
    unfolding sync_members_run [OF s i ne]
    using h by (simp add: get_member_data_eq nothing_to_sync_def)
  have un: "fst (sync_members ex_unready ex_strftime ex_clock None ''ann'' ex_bots ''Benji'' ex_backend)
       = [Send ''Google Sheets service not available'']"
    by (simp add: sync_members_def ex_unready_def ex_cog_def)
  from b show ?thesis by (simp add: run un)
qed

text \<open>
  C10 (as amended). A sync never changes the name or the role list of the guild. When
  the member cache of the guild is complete, or the refresh fails, the guild object is
  the same before and after; otherwise the collect phase replaces the cached member
  list by the members that the refresh loaded. On the spreadsheet a sync changes only
  the cells of the target sheet.
\<close>

theorem sync_members_frame:
  "(case sync_members self strftime clock fetched author g t b of
      (shown, g', b') \<Rightarrow>
        guild_name g' = guild_name g \<and> guild_roles g' = guild_roles g
        \<and> (chunked g \<or> fetched = None \<longrightarrow> g' = g)
        \<and> (g' = g \<or> (\<not> chunked g
              \<and> (\<exists>ms. fetched = Some ms \<and> g' = g\<lparr>members := ms, chunked := True\<rparr>)))
        \<and> only_cells_of t (sheets b) (sheets b'))"
proof -
  obtain shown g' b' where r: "sync_members self strftime clock fetched author g t b = (shown, g', b')"
    by (cases "sync_members self strftime clock fetched author g t b")
  from sync_members_guild [of self strftime clock fetched author g t b] r
  have gc: "g' = g \<or> g' = ensure_chunked fetched g" by simp
  from sync_members_sheets [of t b self strftime clock fetched author g] r
  have sh: "only_cells_of t (sheets b) (sheets b')" by simp
  have same: "ensure_chunked fetched g = g" if "chunked g \<or> fetched = None"
    using that by (auto simp: ensure_chunked_chunked)
  from gc have n: "guild_name g' = guild_name g \<and> guild_roles g' = guild_roles g"
    by (auto simp: ensure_chunked_def split: option.split)
  from gc same have k: "chunked g \<or> fetched = None \<longrightarrow> g' = g" by auto
  from gc ensure_chunked_cases [of fetched g]
  have c: "g' = g \<or> (\<not> chunked g
              \<and> (\<exists>ms. fetched = Some ms \<and> g' = g\<lparr>members := ms, chunked := True\<rparr>))"
    by auto
  from n k c sh show ?thesis by (simp add: r)
qed

theorem sync_members_frame_witness:
  "chunked ex_guild
   \<and> fst (snd (sync_members ex_cog ex_strftime ex_clock (Some []) ''ann'' ex_guild ''Benji'' ex_backend))
       = ex_guild
   \<and> only_cells_of ''Benji'' (sheets ex_backend)
       (sheets (snd (snd (sync_members ex_cog ex_strftime ex_clock (Some []) ''ann'' ex_guild
                            ''Benji'' ex_backend))))"
proof -
  have c: "chunked ex_guild" by (simp add: ex_guild_def)
  from sync_members_frame [where self = ex_cog and strftime = ex_strftime and clock = ex_clock
      and fetched = "Some []" and author = "''ann''" and g = ex_guild and t = "''Benji''"
      and b = ex_backend] c
  show ?thesis by (simp add: case_prod_beta)
qed

text \<open>
  C10 as stated says the member list is the same before and after. For a guild whose
  cache is not complete, \<open>get_member_data\<close> calls the refresh, and the member list that
  the guild object holds after the sync is the refreshed one.
\<close>

theorem sync_refreshes_member_list:
  "\<not> chunked ex_unloaded
   \<and> members ex_unloaded = []
   \<and> members (fst (snd (sync_members ex_cog ex_strftime ex_clock (Some [ex_alice]) ''ann''
                          ex_unloaded ''Benji'' ex_backend))) = [ex_alice]
   \<and> members (fst (snd (sync_members ex_cog ex_strftime ex_clock (Some [ex_alice]) ''ann''
                          ex_unloaded ''Benji'' ex_backend))) \<noteq> members ex_unloaded"
proof -
  have s: "sheets_service ex_cog" and i: "google_sheet_id ex_cog = Some ''sheet-1''"
    by (simp_all add: ex_cog_def)
  have u: "\<not> chunked ex_unloaded" "members ex_unloaded = []"
    by (simp_all add: ex_unloaded_def ex_guild_def)
  have "fst (snd (sync_members ex_cog ex_strftime ex_clock (Some [ex_alice]) ''ann''
                          ex_unloaded ''Benji'' ex_backend))
      = ensure_chunked (Some [ex_alice]) ex_unloaded"
    by (rule sync_members_guild_run [OF s i]) simp
  moreover have "members (ensure_chunked (Some [ex_alice]) ex_unloaded) = [ex_alice]"
    using u by (simp add: ensure_chunked_def)
  ultimately show ?thesis using u by simp
qed

end
